theory Spec2Isabelle
  imports Complex_Main
begin

section \<open>Data model\<close>

text \<open>
  The two modules of the repository, \<^verbatim>\<open>skfda/exploratory/depth/_depth.py\<close> and
  \<^verbatim>\<open>skfda/misc/metrics/_elastic_metrics.py\<close>, are embedded function by function.

  Numbers. A finite \<^verbatim>\<open>float64\<close> is modelled by the real number it stands for: rounding
  and overflow are not modelled. Where numpy leaves the finite numbers (the square root
  of a negative number is \<^verbatim>\<open>nan\<close>, a division by zero is \<^verbatim>\<open>inf\<close> or \<^verbatim>\<open>nan\<close>, both with a
  warning and no exception) the call ends in the outcome \<open>NonFinite\<close>: a \<^verbatim>\<open>nan\<close> or \<^verbatim>\<open>inf\<close> has
  arisen, and the run is not followed any further. A Python exception is the outcome
  \<open>Raises\<close>.
\<close>

datatype py_error =
  NotImplementedError | ZeroDivisionError | ValueError | IndexError | AttributeError

datatype 'a outcome = Raises py_error | NonFinite | Returns 'a

fun bind :: "'a outcome \<Rightarrow> ('a \<Rightarrow> 'b outcome) \<Rightarrow> 'b outcome" where
  "bind (Raises e) f = Raises e"
| "bind NonFinite f = NonFinite"
| "bind (Returns a) f = f a"

text \<open>Running a list of computations in order; the first one that does not return decides.\<close>

fun sequence :: "'a outcome list \<Rightarrow> 'a list outcome" where
  "sequence [] = Returns []"
| "sequence (c # cs) = bind c (\<lambda>a. bind (sequence cs) (\<lambda>as. Returns (a # as)))"

text \<open>
  \<^verbatim>\<open>FDataGrid\<close>, the container of functions sampled on a grid, is not part of the two
  modules; the record holds the attributes they read. The type of \<open>data_matrix\<close> is a
  parameter: the band depth reads it as one row of values per function (the grid
  positions of that function flattened, the codomain being scalar), the integrated
  depth only hands it to the multivariate depth.
\<close>

record 'd fdatagrid =
  data_matrix :: 'd
  grid_points :: "real list list"
  domain_range :: "(real \<times> real) list"
  dim_codomain :: nat

section \<open>Band depth\<close>

text \<open>
  Iterating an \<^verbatim>\<open>FDataGrid\<close> yields its functions one by one, each an \<^verbatim>\<open>FDataGrid\<close> of a
  single function.
\<close>

definition iter_samples :: "real list list fdatagrid \<Rightarrow> real list list fdatagrid list" where
  "iter_samples X = map (\<lambda>row. X\<lparr>data_matrix := [row]\<rparr>) (data_matrix X)"

text \<open>\<^verbatim>\<open>itertools.combinations(iterable, 2)\<close>: the pairs in the order of their positions.\<close>

fun combinations2 :: "'a list \<Rightarrow> ('a \<times> 'a) list" where
  "combinations2 [] = []"
| "combinations2 (x # xs) = map (Pair x) xs @ combinations2 xs"

text \<open>
  An elementwise numpy operation along one axis: the two lengths agree, or one of them is
  1 and that operand is repeated; any other pair of lengths raises \<^verbatim>\<open>ValueError\<close>.
\<close>

definition broadcast :: "('a \<Rightarrow> 'b \<Rightarrow> 'c outcome) \<Rightarrow> 'a list \<Rightarrow> 'b list \<Rightarrow> 'c list outcome" where
  "broadcast f xs ys =
     (if length xs = length ys then sequence (map2 f xs ys)
      else if length xs = 1 then sequence (map (f (hd xs)) ys)
      else if length ys = 1 then sequence (map (\<lambda>x. f x (hd ys)) xs)
      else Raises ValueError)"

text \<open>The operators \<^verbatim>\<open><=\<close>, \<^verbatim>\<open>&\<close> and \<^verbatim>\<open>|\<close> on two-dimensional arrays (function, grid position).\<close>

definition np_le :: "real list list \<Rightarrow> real list list \<Rightarrow> bool list list outcome" where
  "np_le = broadcast (broadcast (\<lambda>a b. Returns (a \<le> b)))"

definition np_and :: "bool list list \<Rightarrow> bool list list \<Rightarrow> bool list list outcome" where
  "np_and = broadcast (broadcast (\<lambda>a b. Returns (a \<and> b)))"

definition np_or :: "bool list list \<Rightarrow> bool list list \<Rightarrow> bool list list outcome" where
  "np_or = broadcast (broadcast (\<lambda>a b. Returns (a \<or> b)))"

text \<open>\<^verbatim>\<open>np.all\<close> over every axis but the first: one truth value per function.\<close>

definition np_all_rows :: "bool list list \<Rightarrow> bool list" where
  "np_all_rows m = map (list_all id) m"

text \<open>
  \<^verbatim>\<open>num_in\<close> starts as the Python integer 0 and becomes an integer array at the first
  \<^verbatim>\<open>+=\<close> of a boolean array.
\<close>

datatype num_in = PyInt int | NdArray "int list"

fun iadd :: "num_in \<Rightarrow> bool list \<Rightarrow> num_in outcome" where
  "iadd (PyInt n) bs = Returns (NdArray (map (\<lambda>b. n + of_bool b) bs))"
| "iadd (NdArray v) bs = bind (broadcast (\<lambda>a b. Returns (a + of_bool b)) v bs) (\<lambda>r. Returns (NdArray r))"

datatype py_value = PyFloat real | FloatArray "real list"

text \<open>
  \<^verbatim>\<open>num_in / n_total\<close>: between two Python integers a zero divisor raises
  \<^verbatim>\<open>ZeroDivisionError\<close>; the entries of an array divided by zero are \<^verbatim>\<open>inf\<close> or \<^verbatim>\<open>nan\<close>.
\<close>

fun truediv :: "num_in \<Rightarrow> nat \<Rightarrow> py_value outcome" where
  "truediv (PyInt a) n =
     (if n = 0 then Raises ZeroDivisionError else Returns (PyFloat (real_of_int a / real n)))"
| "truediv (NdArray v) n =
     (if n = 0 \<and> v \<noteq> [] then NonFinite
      else Returns (FloatArray (map (\<lambda>a. real_of_int a / real n) v)))"

record band_depth =
  distribution :: "real list list fdatagrid option"

definition BandDepth_fit :: "band_depth \<Rightarrow> real list list fdatagrid \<Rightarrow> band_depth outcome" where
  "BandDepth_fit self X =
     (if dim_codomain X \<noteq> 1 then Raises NotImplementedError
      else Returns (self\<lparr>distribution := Some X\<rparr>))"

text \<open>The body of the loop of \<^verbatim>\<open>predict\<close>, on the state \<open>(num_in, n_total)\<close>.\<close>

definition predict_step ::
  "real list list fdatagrid \<Rightarrow> real list list fdatagrid \<times> real list list fdatagrid \<Rightarrow>
   num_in \<times> nat \<Rightarrow> (num_in \<times> nat) outcome" where
  "predict_step X p st =
     (case p of (f1, f2) \<Rightarrow> case st of (num_in, n_total) \<Rightarrow>
        bind (np_le (data_matrix f1) (data_matrix X)) (\<lambda>a1.
        bind (np_le (data_matrix X) (data_matrix f2)) (\<lambda>b1.
        bind (np_and a1 b1) (\<lambda>between_range_1.
        bind (np_le (data_matrix f2) (data_matrix X)) (\<lambda>a2.
        bind (np_le (data_matrix X) (data_matrix f1)) (\<lambda>b2.
        bind (np_and a2 b2) (\<lambda>between_range_2.
        bind (np_or between_range_1 between_range_2) (\<lambda>between_range.
        bind (iadd num_in (np_all_rows between_range)) (\<lambda>num_in'.
        Returns (num_in', n_total + 1))))))))))"

fun predict_loop ::
  "real list list fdatagrid \<Rightarrow> (real list list fdatagrid \<times> real list list fdatagrid) list \<Rightarrow>
   num_in \<times> nat \<Rightarrow> (num_in \<times> nat) outcome" where
  "predict_loop X [] st = Returns st"
| "predict_loop X (p # ps) st = bind (predict_step X p st) (predict_loop X ps)"

definition BandDepth_predict :: "band_depth \<Rightarrow> real list list fdatagrid \<Rightarrow> py_value outcome" where
  "BandDepth_predict self X =
     (case distribution self of
        None \<Rightarrow> Raises AttributeError
      | Some D \<Rightarrow>
          bind (predict_loop X (combinations2 (iter_samples D)) (PyInt 0, 0))
            (\<lambda>(num_in, n_total). truediv num_in n_total))"

subsection \<open>The band depth in the words of the specification\<close>

text \<open>
  The query \<open>x\<close> lies in the band of \<open>f1\<close> and \<open>f2\<close> when at every grid point its value is
  between the two values, in either order.
\<close>

definition in_band :: "real list \<Rightarrow> real list \<Rightarrow> real list \<Rightarrow> bool" where
  "in_band f1 f2 x =
     (\<forall>k \<in> {..<length x}. (f1 ! k \<le> x ! k \<and> x ! k \<le> f2 ! k) \<or> (f2 ! k \<le> x ! k \<and> x ! k \<le> f1 ! k))"

text \<open>The unordered pairs of reference functions, as pairs of positions \<open>i < j\<close>, whose band holds \<open>x\<close>.\<close>

definition containing_pairs :: "real list list \<Rightarrow> real list \<Rightarrow> (nat \<times> nat) set" where
  "containing_pairs D x =
     {(i, j) \<in> {..<length D} \<times> {..<length D}. i < j \<and> in_band (D ! i) (D ! j) x}"

definition band_depth_spec :: "real list list \<Rightarrow> real list \<Rightarrow> real" where
  "band_depth_spec D x = real (card (containing_pairs D x)) / real (length D choose 2)"

text \<open>Two abbreviations used in the proofs: the mask of one query row, and a count over a list of pairs.\<close>

definition row_mask :: "real list \<Rightarrow> real list \<Rightarrow> real list \<Rightarrow> bool list" where
  "row_mask r1 r2 x =
     map2 (\<or>) (map2 (\<and>) (map2 (\<le>) r1 x) (map2 (\<le>) x r2))
              (map2 (\<and>) (map2 (\<le>) r2 x) (map2 (\<le>) x r1))"

definition count_in :: "(real list \<times> real list) list \<Rightarrow> real list \<Rightarrow> nat" where
  "count_in ps x = length (filter (\<lambda>(r1, r2). in_band r1 r2 x) ps)"

text \<open>
  The exceptions that a \<^verbatim>\<open>raise\<close> statement of the module raises after a check of its own;
  the others are raised by the interpreter or by numpy while an expression is evaluated.
\<close>

definition explicit_raise :: "py_error \<Rightarrow> bool" where
  "explicit_raise e = (e = NotImplementedError)"

subsection \<open>Samples\<close>

text \<open>The sample of the docstrings: four curves on the grid 0, 2, 4, 6, 8, 10.\<close>

definition fd_example :: "real list list fdatagrid" where
  "fd_example =
     \<lparr>data_matrix = [[1, 1, 2, 3, 5/2, 2], [1/2, 1/2, 1, 2, 3/2, 1],
                     [-1, -1, -1/2, 1, 1, 1/2], [-1/2, -1/2, -1/2, -1, -1, -1]],
      grid_points = [[0, 2, 4, 6, 8, 10]], domain_range = [(0, 10)], dim_codomain = 1\<rparr>"

definition fd_small :: "real list list fdatagrid" where
  "fd_small = \<lparr>data_matrix = [[0, 0], [2, 3], [1, 4]],
      grid_points = [[0, 1]], domain_range = [(0, 1)], dim_codomain = 1\<rparr>"

definition fd_single :: "real list list fdatagrid" where
  "fd_single = \<lparr>data_matrix = [[0, 1]],
      grid_points = [[0, 1]], domain_range = [(0, 1)], dim_codomain = 1\<rparr>"

definition fd_vector :: "real list list fdatagrid" where
  "fd_vector = \<lparr>data_matrix = [[0, 1, 0, 1]],
      grid_points = [[0, 1]], domain_range = [(0, 1)], dim_codomain = 2\<rparr>"

section \<open>Integrated depth\<close>

subsection \<open>Simpson's rule\<close>

text \<open>
  \<^verbatim>\<open>scipy.integrate.simps(y, x=x)\<close> is SciPy's, not the repository's; the definitions follow
  its implementation for samples \<open>y\<close> at abscissas \<open>x\<close> of any spacing. One panel on three
  abscissas; a panel with a spacing of zero divides by zero.
\<close>

definition simps_panel :: "real \<Rightarrow> real \<Rightarrow> real \<Rightarrow> real \<Rightarrow> real \<Rightarrow> real \<Rightarrow> real outcome" where
  "simps_panel x0 x1 x2 y0 y1 y2 =
     (let h0 = x1 - x0; h1 = x2 - x1; hsum = h0 + h1; hprod = h0 * h1; h0divh1 = h0 / h1
      in if hprod = 0 then NonFinite
         else Returns (hsum / 6 * (y0 * (2 - 1 / h0divh1) + y1 * (hsum * hsum / hprod)
                                   + y2 * (2 - h0divh1))))"

text \<open>The sum of the panels on the points 0-1-2, 2-3-4, and so on.\<close>

fun basic_simps :: "real list \<Rightarrow> real list \<Rightarrow> real outcome" where
  "basic_simps (y0 # y1 # y2 # ys) (x0 # x1 # x2 # xs) =
     bind (simps_panel x0 x1 x2 y0 y1 y2) (\<lambda>p.
     bind (basic_simps (y2 # ys) (x2 # xs)) (\<lambda>r. Returns (p + r)))"
| "basic_simps ys xs = Returns 0"

text \<open>
  An odd number of samples is a whole number of panels. For an even number the rule is
  averaged over its two placements (\<^verbatim>\<open>even='avg'\<close>): Simpson's rule on all but the last
  point with a trapezoid on the last interval, and Simpson's rule on all but the first
  point with a trapezoid on the first interval.
\<close>

definition simps :: "real list \<Rightarrow> real list \<Rightarrow> real outcome" where
  "simps y x =
     (let N = length y in
      if length x \<noteq> N then Raises ValueError
      else if N = 0 then Raises IndexError
      else if even N then
        bind (basic_simps (butlast y) (butlast x)) (\<lambda>r1.
        bind (basic_simps (tl y) (tl x)) (\<lambda>r2.
          let val1 = 1/2 * (last x - last (butlast x)) * (last y + last (butlast y));
              val2 = 1/2 * (x ! 1 - x ! 0) * (y ! 1 + y ! 0)
          in Returns ((r1 + r2) / 2 + (val1 + val2) / 2)))
      else basic_simps y x)"

subsection \<open>Arrays of any dimension\<close>

text \<open>A numpy array of reals: its shape and its entries in row-major order.\<close>

record ndarray =
  shape :: "nat list"
  data :: "real list"

definition well_formed :: "ndarray \<Rightarrow> bool" where
  "well_formed y = (length (data y) = prod_list (shape y))"

text \<open>
  \<^verbatim>\<open>simps(y, x=x, axis=1)\<close> on an array of shape \<open>(M, G, ...)\<close>: the rule along the second
  axis, for every function \<open>m\<close> and every position \<open>j\<close> of the remaining axes.
\<close>

definition simps_axis1 :: "ndarray \<Rightarrow> real list \<Rightarrow> ndarray outcome" where
  "simps_axis1 y x =
     (case shape y of
        M # G # rest \<Rightarrow>
          if length x \<noteq> G then Raises ValueError
          else if G = 0 then Raises IndexError
          else
            (let stride = prod_list rest in
             bind (sequence (map (\<lambda>(m, j). simps (map (\<lambda>i. data y ! ((m * G + i) * stride + j)) [0..<G]) x)
                                 (List.product [0..<M] [0..<stride])))
               (\<lambda>r. Returns \<lparr>shape = M # rest, data = r\<rparr>))
      | _ \<Rightarrow> Raises IndexError)"

text \<open>\<^verbatim>\<open>integrand /= interval_len\<close>: numpy divides by zero with a warning.\<close>

definition np_idiv :: "ndarray \<Rightarrow> real \<Rightarrow> ndarray outcome" where
  "np_idiv y c =
     (if c = 0 \<and> data y \<noteq> [] then NonFinite
      else Returns (y\<lparr>data := map (\<lambda>v. v / c) (data y)\<rparr>))"

subsection \<open>The estimator\<close>

text \<open>
  The wrapped multivariate depth is a parameter: its state \<open>'m\<close>, and its methods \<^verbatim>\<open>fit\<close> and
  \<^verbatim>\<open>predict\<close> as the arguments \<open>mv_fit\<close> and \<open>mv_predict\<close>; \<^verbatim>\<open>predict\<close> yields the pointwise
  depth, an array of shape (functions, grid sizes...). The attributes \<^verbatim>\<open>_domain_range\<close> and
  \<^verbatim>\<open>_grid_points\<close> exist once \<^verbatim>\<open>fit\<close> has run.
\<close>

record 'm integrated_depth =
  multivariate_depth :: 'm
  fitted_domain_range :: "(real \<times> real) list option"
  fitted_grid_points :: "real list list option"

definition IntegratedDepth_fit ::
  "('m \<Rightarrow> 'd \<Rightarrow> 'm outcome) \<Rightarrow> 'm integrated_depth \<Rightarrow> 'd fdatagrid \<Rightarrow> 'm integrated_depth outcome" where
  "IntegratedDepth_fit mv_fit self X =
     bind (mv_fit (multivariate_depth self) (data_matrix X)) (\<lambda>fitted.
       Returns (self\<lparr>multivariate_depth := fitted,
                      fitted_domain_range := Some (domain_range X),
                      fitted_grid_points := Some (grid_points X)\<rparr>))"

text \<open>The loop of \<^verbatim>\<open>predict\<close> over \<^verbatim>\<open>zip(X.domain_range, X.grid_points)\<close>, on the state \<open>(integrand, interval_len)\<close>.\<close>

fun integrate_loop ::
  "((real \<times> real) \<times> real list) list \<Rightarrow> ndarray \<times> real \<Rightarrow> (ndarray \<times> real) outcome" where
  "integrate_loop [] st = Returns st"
| "integrate_loop ((d, s) # rest) (integrand, interval_len) =
     bind (simps_axis1 integrand s) (\<lambda>integrand.
       let interval_len = snd d - fst d in
       bind (np_idiv integrand interval_len) (\<lambda>integrand.
         integrate_loop rest (integrand, interval_len)))"

definition IntegratedDepth_predict ::
  "('m \<Rightarrow> 'd \<Rightarrow> ndarray outcome) \<Rightarrow> 'm integrated_depth \<Rightarrow> 'd fdatagrid \<Rightarrow> ndarray outcome" where
  "IntegratedDepth_predict mv_predict self X =
     bind (mv_predict (multivariate_depth self) (data_matrix X)) (\<lambda>pointwise_depth.
     bind (case fitted_domain_range self of
             None \<Rightarrow> Raises AttributeError
           | Some [] \<Rightarrow> Raises IndexError
           | Some (d # ds) \<Rightarrow> Returns (snd d - fst d)) (\<lambda>interval_len.
     bind (integrate_loop (zip (domain_range X) (grid_points X)) (pointwise_depth, interval_len))
       (\<lambda>(integrand, interval_len). Returns integrand)))"

subsection \<open>The integrated depth in the words of the specification\<close>

text \<open>
  The pointwise depth integrated over every domain dimension in turn, and the integral
  over the whole domain divided by the product of the interval lengths.
\<close>

fun integrate_dims :: "ndarray \<Rightarrow> real list list \<Rightarrow> ndarray outcome" where
  "integrate_dims y [] = Returns y"
| "integrate_dims y (s # ss) = bind (simps_axis1 y s) (\<lambda>y'. integrate_dims y' ss)"

definition average_depth_spec :: "ndarray \<Rightarrow> (real \<times> real) list \<Rightarrow> real list list \<Rightarrow> ndarray outcome" where
  "average_depth_spec P ranges grids =
     bind (integrate_dims P grids) (\<lambda>I. np_idiv I (prod_list (map (\<lambda>(lo, hi). hi - lo) ranges)))"

text \<open>Abbreviations used in the proofs: an array divided by a constant, and the two trapezoids of \<open>simps\<close>.\<close>

definition scale :: "real \<Rightarrow> ndarray \<Rightarrow> ndarray" where
  "scale c y = y\<lparr>data := map (\<lambda>v. v / c) (data y)\<rparr>"

definition simps_ends :: "real list \<Rightarrow> real list \<Rightarrow> real" where
  "simps_ends y x =
     (1/2 * (last x - last (butlast x)) * (last y + last (butlast y))
      + 1/2 * (x ! 1 - x ! 0) * (y ! 1 + y ! 0)) / 2"

subsection \<open>Samples\<close>

text \<open>
  A multivariate depth for the examples: it keeps no state, and the depth of a value of a
  scalar function is the value itself.
\<close>

definition value_depth_fit :: "unit \<Rightarrow> ndarray \<Rightarrow> unit outcome" where
  "value_depth_fit m d = Returns ()"

definition value_depth_predict :: "unit \<Rightarrow> ndarray \<Rightarrow> ndarray outcome" where
  "value_depth_predict m d = Returns (d\<lparr>shape := butlast (shape d)\<rparr>)"

text \<open>One surface, \<open>x + y\<close> on the grid \<open>{0, 1, 2} \<times> {0, 2}\<close>, and two curves on the grid 0, 1, 2.\<close>

definition fd_surface :: "ndarray fdatagrid" where
  "fd_surface =
     \<lparr>data_matrix = \<lparr>shape = [1, 3, 2, 1], data = [0, 2, 1, 3, 2, 4]\<rparr>,
      grid_points = [[0, 1, 2], [0, 2]], domain_range = [(0, 2), (0, 2)], dim_codomain = 1\<rparr>"

definition fd_curves :: "ndarray fdatagrid" where
  "fd_curves =
     \<lparr>data_matrix = \<lparr>shape = [2, 3, 1], data = [0, 1, 4, 3, 3, 3]\<rparr>,
      grid_points = [[0, 1, 2]], domain_range = [(0, 2)], dim_codomain = 1\<rparr>"

section \<open>Elastic metrics\<close>

text \<open>
  The four distances are wiring around collaborators that live elsewhere in the package:
  \<^verbatim>\<open>_cast_to_grid\<close>, \<^verbatim>\<open>_normalize_scale\<close>, \<^verbatim>\<open>SRSF\<close>, \<^verbatim>\<open>l2_distance\<close>, \<^verbatim>\<open>ElasticRegistration\<close>,
  \<^verbatim>\<open>normalize_warping\<close>, and the container's \<^verbatim>\<open>derivative()\<close> and evaluation. They are
  the fields of a record that every distance takes as its first argument. The functional
  objects are \<^verbatim>\<open>FDataGrid\<close>s of scalar functions on one grid, one row of values per function.
\<close>

type_synonym fdata = "real list list fdatagrid"

text \<open>
  \<open>cast_to_grid\<close> stands for \<^verbatim>\<open>_cast_to_grid(fdata1, fdata2, eval_points=..., _check=...)\<close>;
  \<open>srsf_fit\<close> and \<open>srsf_transform\<close> for the methods of \<^verbatim>\<open>SRSF(initial_value=0)\<close>, \<open>'s\<close> being
  the state of the fitted transformer; \<open>registration template penalty output_points f\<close>
  for \<^verbatim>\<open>ElasticRegistration(template=..., penalty=..., output_points=...).fit_transform(f)\<close>
  together with the attribute \<^verbatim>\<open>warping_\<close> it leaves; \<open>evaluate f points\<close> for the call
  \<^verbatim>\<open>f(points)\<close>, one row of values per function.
\<close>

record 's collaborators =
  cast_to_grid :: "fdata \<Rightarrow> fdata \<Rightarrow> (fdata \<times> fdata) outcome"
  normalize_scale :: "real list \<Rightarrow> real list outcome"
  srsf_fit :: "fdata \<Rightarrow> 's outcome"
  srsf_transform :: "'s \<Rightarrow> fdata \<Rightarrow> fdata outcome"
  l2_distance :: "fdata \<Rightarrow> fdata \<Rightarrow> real list outcome"
  registration :: "fdata \<Rightarrow> real \<Rightarrow> real list \<Rightarrow> fdata \<Rightarrow> (fdata \<times> fdata) outcome"
  derivative :: "fdata \<Rightarrow> fdata outcome"
  evaluate :: "fdata \<Rightarrow> real list \<Rightarrow> real list list outcome"
  normalize_warping :: "fdata \<Rightarrow> real \<times> real \<Rightarrow> fdata outcome"

text \<open>Indexing with 0: \<^verbatim>\<open>grid_points[0]\<close>, and \<^verbatim>\<open>[0, ..., 0]\<close> on the values of scalar functions.\<close>

definition item0 :: "'a list \<Rightarrow> 'a outcome" where
  "item0 xs = (case xs of [] \<Rightarrow> Raises IndexError | x # _ \<Rightarrow> Returns x)"

text \<open>
  Modelled from the spec: \<^verbatim>\<open>FDataGrid.copy(grid_points=..., domain_range=...)\<close>, which is not
  in the two modules, returns the same functions on the given grid and domain.
\<close>

definition copy :: "fdata \<Rightarrow> real list \<Rightarrow> real \<times> real \<Rightarrow> fdata" where
  "copy X g d = X\<lparr>grid_points := [g], domain_range := [d]\<rparr>"

text \<open>\<^verbatim>\<open>np.sqrt\<close>: the square root of a negative number is \<^verbatim>\<open>nan\<close>.\<close>

definition np_sqrt :: "real \<Rightarrow> real outcome" where
  "np_sqrt v = (if v < 0 then NonFinite else Returns (sqrt v))"

definition np_sqrt_array :: "real list \<Rightarrow> real list outcome" where
  "np_sqrt_array vs = sequence (map np_sqrt vs)"

text \<open>\<^verbatim>\<open>np.clip(a, a_min, a_max)\<close>\<close>

definition np_clip :: "real \<Rightarrow> real \<Rightarrow> real \<Rightarrow> real" where
  "np_clip a a_min a_max = min a_max (max a a_min)"

text \<open>
  \<^verbatim>\<open>np.multiply(a, b, out=a)\<close> on one-dimensional arrays: the product has to fit the shape
  of \<open>a\<close>, so only \<open>b\<close> may be repeated.
\<close>

definition np_multiply_out :: "real list \<Rightarrow> real list \<Rightarrow> real list outcome" where
  "np_multiply_out a b =
     (if length a = length b then Returns (map2 (*) a b)
      else if length b = 1 then Returns (map (\<lambda>u. u * hd b) a)
      else Raises ValueError)"

definition fisher_rao_distance :: "'s collaborators \<Rightarrow> fdata \<Rightarrow> fdata \<Rightarrow> real list outcome" where
  "fisher_rao_distance E fdata1 fdata2 =
     bind (cast_to_grid E fdata1 fdata2) (\<lambda>(fdata1, fdata2).
     bind (item0 (grid_points fdata1)) (\<lambda>g.
     bind (normalize_scale E g) (\<lambda>eval_points_normalized.
     let fdata1 = copy fdata1 eval_points_normalized (0, 1);
         fdata2 = copy fdata2 eval_points_normalized (0, 1) in
     bind (srsf_fit E fdata1) (\<lambda>srsf.
     bind (srsf_transform E srsf fdata1) (\<lambda>fdata1_srsf.
     bind (srsf_transform E srsf fdata2) (\<lambda>fdata2_srsf.
     l2_distance E fdata1_srsf fdata2_srsf))))))"

definition amplitude_distance :: "'s collaborators \<Rightarrow> real \<Rightarrow> fdata \<Rightarrow> fdata \<Rightarrow> real list outcome" where
  "amplitude_distance E lam fdata1 fdata2 =
     bind (cast_to_grid E fdata1 fdata2) (\<lambda>(fdata1, fdata2).
     bind (item0 (grid_points fdata1)) (\<lambda>g.
     bind (normalize_scale E g) (\<lambda>eval_points_normalized.
     let fdata1 = copy fdata1 eval_points_normalized (0, 1);
         fdata2 = copy fdata2 eval_points_normalized (0, 1) in
     bind (registration E fdata2 lam eval_points_normalized fdata1) (\<lambda>(fdata1_reg, warping).
     bind (srsf_fit E fdata1_reg) (\<lambda>srsf.
     bind (srsf_transform E srsf fdata1_reg) (\<lambda>fdata1_reg_srsf.
     bind (srsf_transform E srsf fdata2) (\<lambda>fdata2_srsf.
     bind (l2_distance E fdata1_reg_srsf fdata2_srsf) (\<lambda>distance.
     if lam \<noteq> 0 then
       bind (derivative E warping) (\<lambda>warping_deriv.
       bind (evaluate E warping_deriv eval_points_normalized) (\<lambda>values.
       bind (item0 values) (\<lambda>penalty.
       bind (np_sqrt_array penalty) (\<lambda>penalty.
       let penalty = map (\<lambda>p. p - 1) penalty;
           penalty = map (\<lambda>p. p\<^sup>2) penalty in
       bind (simps penalty eval_points_normalized) (\<lambda>penalty.
       np_sqrt_array (map (\<lambda>d. d\<^sup>2 + lam * penalty) distance))))))
     else Returns distance))))))))"

definition phase_distance :: "'s collaborators \<Rightarrow> real \<Rightarrow> fdata \<Rightarrow> fdata \<Rightarrow> real outcome" where
  "phase_distance E lam fdata1 fdata2 =
     bind (cast_to_grid E fdata1 fdata2) (\<lambda>(fdata1, fdata2).
     bind (item0 (grid_points fdata1)) (\<lambda>g.
     bind (normalize_scale E g) (\<lambda>eval_points_normalized.
     let fdata1 = copy fdata1 eval_points_normalized (0, 1);
         fdata2 = copy fdata2 eval_points_normalized (0, 1) in
     bind (registration E fdata2 lam eval_points_normalized fdata1) (\<lambda>(fdata1_reg, warping).
     bind (derivative E warping) (\<lambda>warping_deriv.
     bind (evaluate E warping_deriv eval_points_normalized) (\<lambda>values.
     bind (item0 values) (\<lambda>derivative_warping.
     bind (np_sqrt_array derivative_warping) (\<lambda>derivative_warping.
     bind (simps derivative_warping eval_points_normalized) (\<lambda>d.
     let d = np_clip d (- 1) 1 in
     Returns (arccos d))))))))))"

definition warping_distance :: "'s collaborators \<Rightarrow> fdata \<Rightarrow> fdata \<Rightarrow> real outcome" where
  "warping_distance E warping1 warping2 =
     bind (cast_to_grid E warping1 warping2) (\<lambda>(warping1, warping2).
     bind (normalize_warping E warping1 (0, 1)) (\<lambda>warping1.
     bind (normalize_warping E warping2 (0, 1)) (\<lambda>warping2.
     bind (derivative E warping1) (\<lambda>deriv1.
     bind (item0 (data_matrix deriv1)) (\<lambda>warping1_data.
     bind (derivative E warping2) (\<lambda>deriv2.
     bind (item0 (data_matrix deriv2)) (\<lambda>warping2_data.
     let warping1_data = map (\<lambda>v. if v < 0 then 0 else v) warping1_data;
         warping2_data = map (\<lambda>v. if v < 0 then 0 else v) warping2_data in
     bind (np_sqrt_array warping1_data) (\<lambda>srsf_warping1.
     bind (np_sqrt_array warping2_data) (\<lambda>srsf_warping2.
     bind (np_multiply_out srsf_warping1 srsf_warping2) (\<lambda>product.
     bind (item0 (grid_points warping1)) (\<lambda>g.
     bind (simps product g) (\<lambda>d.
     let d = np_clip d (- 1) 1 in
     Returns (arccos d)))))))))))))"

subsection \<open>Regular grids\<close>

text \<open>
  A grid is regular when it is strictly increasing and no spacing is more than twice a
  neighbouring one, as on every uniform grid: then all the weights of Simpson's rule are
  non-negative.
\<close>

fun gentle :: "real list \<Rightarrow> bool" where
  "gentle (x0 # x1 # x2 # xs) =
     (x2 - x1 \<le> 2 * (x1 - x0) \<and> x1 - x0 \<le> 2 * (x2 - x1) \<and> gentle (x1 # x2 # xs))"
| "gentle xs = True"

definition regular_grid :: "real list \<Rightarrow> bool" where
  "regular_grid x = (sorted_wrt (<) x \<and> gentle x)"

subsection \<open>Collaborators in the words of the specification\<close>

text \<open>
  Modelled from the spec: \<^verbatim>\<open>_normalize_scale\<close>, which is not in the two modules, rescales the
  grid points affinely into \<open>[0, 1]\<close>.
\<close>

definition normalize_scale_spec :: "real list \<Rightarrow> real list outcome" where
  "normalize_scale_spec t =
     (if t = [] then Raises IndexError
      else if last t = hd t then NonFinite
      else Returns (map (\<lambda>u. (u - hd t) / (last t - hd t)) t))"

text \<open>
  Modelled from the spec: the \<^verbatim>\<open>SRSF\<close> transform, which is not in the two modules, is
  \<open>sign(f') \<cdot> sqrt(|f'|)\<close> of the derivative \<open>f'\<close>; the derivative stays a parameter.
\<close>

definition SRSF_spec :: "(fdata \<Rightarrow> fdata outcome) \<Rightarrow> fdata \<Rightarrow> fdata outcome" where
  "SRSF_spec deriv f =
     bind (deriv f) (\<lambda>df. Returns (df\<lparr>data_matrix := map (map (\<lambda>v. sgn v * sqrt \<bar>v\<bar>)) (data_matrix df)\<rparr>))"

text \<open>
  Modelled from the spec: \<^verbatim>\<open>l2_distance\<close>, which is not in the two modules, is the square
  root of the quadrature of the squared difference, function by function.
\<close>

definition row_l2 :: "real list \<Rightarrow> real list \<Rightarrow> real list \<Rightarrow> real outcome" where
  "row_l2 g ra rb =
     (if length ra \<noteq> length rb then Raises ValueError
      else bind (simps (map2 (\<lambda>u v. (u - v)\<^sup>2) ra rb) g) np_sqrt)"

definition l2_distance_spec :: "fdata \<Rightarrow> fdata \<Rightarrow> real list outcome" where
  "l2_distance_spec a b =
     bind (item0 (grid_points a)) (\<lambda>g.
       if length (data_matrix a) \<noteq> length (data_matrix b) then Raises ValueError
       else sequence (map2 (row_l2 g) (data_matrix a) (data_matrix b)))"

text \<open>Any collaborators, with the \<^verbatim>\<open>SRSF\<close> transform and the L2 distance of the specification.\<close>

definition spec_collaborators :: "'s collaborators \<Rightarrow> unit collaborators" where
  "spec_collaborators E =
     \<lparr>cast_to_grid = cast_to_grid E, normalize_scale = normalize_scale E,
      srsf_fit = (\<lambda>f. Returns ()), srsf_transform = (\<lambda>s. SRSF_spec (derivative E)),
      l2_distance = l2_distance_spec, registration = registration E,
      derivative = derivative E, evaluate = evaluate E, normalize_warping = normalize_warping E\<rparr>"

subsection \<open>Samples\<close>

text \<open>
  Collaborators for the examples. The functions are on one grid already and nothing is
  resampled; the registration leaves the function as it is and reports the identity
  warping on the output points; the derivative of a function with values \<open>r\<close> on the grid
  \<open>g\<close> has the values \<open>d g r\<close>, for an estimate \<open>d\<close> of the derivative that is a parameter;
  evaluating on the grid reads the stored values.
\<close>

definition example_derivative :: "(real list \<Rightarrow> real list \<Rightarrow> real list) \<Rightarrow> fdata \<Rightarrow> fdata outcome" where
  "example_derivative d w =
     bind (item0 (grid_points w)) (\<lambda>g. Returns (w\<lparr>data_matrix := map (d g) (data_matrix w)\<rparr>))"

definition example_collaborators :: "(real list \<Rightarrow> real list \<Rightarrow> real list) \<Rightarrow> unit collaborators" where
  "example_collaborators d =
     \<lparr>cast_to_grid = (\<lambda>a b. Returns (a, b)), normalize_scale = normalize_scale_spec,
      srsf_fit = (\<lambda>f. Returns ()),
      srsf_transform = (\<lambda>s. SRSF_spec (example_derivative d)),
      l2_distance = l2_distance_spec,
      registration = (\<lambda>template lam points f. Returns (f, f\<lparr>data_matrix := [points]\<rparr>)),
      derivative = example_derivative d,
      evaluate = (\<lambda>w points. Returns (data_matrix w)),
      normalize_warping = (\<lambda>w d. Returns w)\<rparr>"

text \<open>An estimate with given values, whatever the function.\<close>

definition given_values :: "real list \<Rightarrow> real list \<Rightarrow> real list \<Rightarrow> real list" where
  "given_values dvals g r = dvals"

text \<open>
  Modelled from the spec: the container's \<^verbatim>\<open>derivative()\<close>, which is not in the two modules,
  is an estimate by finite differences. The package takes the differences of second order
  on three neighbouring points: at a grid point, the slope of the parabola through the
  values at the point and at its two neighbours, and at either end of the grid the slope of
  the parabola through the three first or the three last points. \<open>parabola_slope\<close> is the
  slope at \<open>x\<close> of the parabola through \<open>(x0, y0)\<close>, \<open>(x1, y1)\<close> and \<open>(x2, y2)\<close>. The estimate
  needs three points; on a shorter grid the list of values is empty here.
\<close>

definition parabola_slope :: "real \<Rightarrow> real \<Rightarrow> real \<Rightarrow> real \<Rightarrow> real \<Rightarrow> real \<Rightarrow> real \<Rightarrow> real" where
  "parabola_slope x0 x1 x2 y0 y1 y2 x =
     y0 * (2 * x - x1 - x2) / ((x0 - x1) * (x0 - x2))
     + y1 * (2 * x - x0 - x2) / ((x1 - x0) * (x1 - x2))
     + y2 * (2 * x - x0 - x1) / ((x2 - x0) * (x2 - x1))"

fun first_difference :: "real list \<Rightarrow> real list \<Rightarrow> real list" where
  "first_difference (x0 # x1 # x2 # xs) (y0 # y1 # y2 # ys) = [parabola_slope x0 x1 x2 y0 y1 y2 x0]"
| "first_difference xs ys = []"

fun central_differences :: "real list \<Rightarrow> real list \<Rightarrow> real list" where
  "central_differences (x0 # x1 # x2 # xs) (y0 # y1 # y2 # ys) =
     parabola_slope x0 x1 x2 y0 y1 y2 x1 # central_differences (x1 # x2 # xs) (y1 # y2 # ys)"
| "central_differences xs ys = []"

fun last_difference :: "real list \<Rightarrow> real list \<Rightarrow> real list" where
  "last_difference (x0 # x1 # x2 # x3 # xs) (y0 # y1 # y2 # y3 # ys) =
     last_difference (x1 # x2 # x3 # xs) (y1 # y2 # y3 # ys)"
| "last_difference [x0, x1, x2] [y0, y1, y2] = [parabola_slope x0 x1 x2 y0 y1 y2 x2]"
| "last_difference xs ys = []"

definition three_point_differences :: "real list \<Rightarrow> real list \<Rightarrow> real list" where
  "three_point_differences g r =
     (if length g = length r
      then first_difference g r @ central_differences g r @ last_difference g r
      else [])"

text \<open>
  The identity and the square on the grid 0, 1/2, 1, and two more warpings of \<open>[0, 1]\<close> on
  that grid. Their derivatives by three-point differences are \<open>1, 1, 1\<close> and \<open>0, 1, 2\<close>, and
  \<open>-1/4, 1, 9/4\<close> and \<open>1/25, 1, 49/25\<close>.
\<close>

definition fd_line :: fdata where
  "fd_line = \<lparr>data_matrix = [[0, 1/2, 1]], grid_points = [[0, 1/2, 1]],
               domain_range = [(0, 1)], dim_codomain = 1\<rparr>"

definition fd_square :: fdata where
  "fd_square = \<lparr>data_matrix = [[0, 1/4, 1]], grid_points = [[0, 1/2, 1]],
               domain_range = [(0, 1)], dim_codomain = 1\<rparr>"

definition fd_bent :: fdata where
  "fd_bent = \<lparr>data_matrix = [[0, 3/16, 1]], grid_points = [[0, 1/2, 1]],
               domain_range = [(0, 1)], dim_codomain = 1\<rparr>"

definition fd_curved :: fdata where
  "fd_curved = \<lparr>data_matrix = [[0, 13/50, 1]], grid_points = [[0, 1/2, 1]],
               domain_range = [(0, 1)], dim_codomain = 1\<rparr>"

text \<open>
  Two strictly increasing warpings of \<open>[0, 1]\<close> on the uneven grid 0, 7/16, 1/2, 9/16, 1:
  one rises steeply just before 1/2, the other, its mirror image, just after. Their
  derivatives by three-point differences are \<open>-17/4, 25/4, 29/8, 1/4, 1/4\<close> and
  \<open>1/4, 1/4, 29/8, 25/4, -17/4\<close>.
\<close>

definition warping_early :: fdata where
  "warping_early = \<lparr>data_matrix = [[0, 7/16, 7/8, 57/64, 1]], grid_points = [[0, 7/16, 1/2, 9/16, 1]],
               domain_range = [(0, 1)], dim_codomain = 1\<rparr>"

definition warping_late :: fdata where
  "warping_late = \<lparr>data_matrix = [[0, 7/64, 1/8, 9/16, 1]], grid_points = [[0, 7/16, 1/2, 9/16, 1]],
               domain_range = [(0, 1)], dim_codomain = 1\<rparr>"

text \<open>Collaborators whose registration reports a given warping.\<close>

definition with_warping :: "fdata \<Rightarrow> 's collaborators \<Rightarrow> 's collaborators" where
  "with_warping w E = E\<lparr>registration := (\<lambda>template lam points f. Returns (f, w))\<rparr>"
section \<open>Proofs: band depth\<close>

lemma sequence_map_Returns: "sequence (map (\<lambda>x. Returns (f x)) xs) = Returns (map f xs)"
  by (induction xs) simp_all

lemma sequence_map2_Returns:
  "sequence (map2 (\<lambda>x y. Returns (f x y)) xs ys) = Returns (map2 f xs ys)"
  using sequence_map_Returns [of "\<lambda>(x, y). f x y" "zip xs ys"]
  by (simp add: case_prod_unfold)

lemma broadcast_same_length:
  "length xs = length ys \<Longrightarrow> broadcast (\<lambda>a b. Returns (f a b)) xs ys = Returns (map2 f xs ys)"
  by (simp add: broadcast_def sequence_map2_Returns)

lemma broadcast_single_left: "broadcast f [r] ys = sequence (map (f r) ys)"
  by (cases ys rule: list.exhaust; cases "tl ys") (auto simp: broadcast_def)

lemma broadcast_single_right: "broadcast f xs [r] = sequence (map (\<lambda>x. f x r) xs)"
  by (cases xs rule: list.exhaust; cases "tl xs") (auto simp: broadcast_def)

lemma sequence_cong_Returns:
  "(\<And>x. x \<in> set xs \<Longrightarrow> f x = Returns (g x)) \<Longrightarrow> sequence (map f xs) = Returns (map g xs)"
  by (induction xs) simp_all

lemma np_le_row_left:
  assumes "\<forall>x \<in> set X. length x = length r"
  shows "np_le [r] X = Returns (map (\<lambda>x. map2 (\<le>) r x) X)"
  unfolding np_le_def broadcast_single_left
  by (rule sequence_cong_Returns) (simp add: assms broadcast_same_length)

lemma np_le_row_right:
  assumes "\<forall>x \<in> set X. length x = length r"
  shows "np_le X [r] = Returns (map (\<lambda>x. map2 (\<le>) x r) X)"
  unfolding np_le_def broadcast_single_right
  by (rule sequence_cong_Returns) (simp add: assms broadcast_same_length)

lemma broadcast2_same_shape:
  assumes "length A = length B" and "\<forall>(a, b) \<in> set (zip A B). length a = length b"
  shows "broadcast (broadcast (\<lambda>a b. Returns (f a b))) A B = Returns (map2 (map2 f) A B)"
proof -
  have "sequence (map (\<lambda>(a, b). broadcast (\<lambda>a b. Returns (f a b)) a b) (zip A B))
      = Returns (map (\<lambda>(a, b). map2 f a b) (zip A B))"
    by (rule sequence_cong_Returns) (use assms(2) in \<open>auto simp: broadcast_same_length\<close>)
  then show ?thesis
    using assms(1) by (subst broadcast_def) simp
qed

lemma list_all_row_mask:
  assumes "length r1 = length x" and "length r2 = length x"
  shows "list_all id (row_mask r1 r2 x) = in_band r1 r2 x"
  using assms by (auto simp: row_mask_def in_band_def list_all_length)

lemma between_range_rows:
  assumes X: "\<forall>x \<in> set X. length x = G" and r1: "length r1 = G" and r2: "length r2 = G"
  shows "bind (np_le [r1] X) (\<lambda>a1.
         bind (np_le X [r2]) (\<lambda>b1.
         bind (np_and a1 b1) (\<lambda>between_range_1.
         bind (np_le [r2] X) (\<lambda>a2.
         bind (np_le X [r1]) (\<lambda>b2.
         bind (np_and a2 b2) (\<lambda>between_range_2.
         bind (np_or between_range_1 between_range_2) (\<lambda>between_range.
         k (np_all_rows between_range)))))))) = k (map (in_band r1 r2) X)"
proof -
  have le: "np_le [r1] X = Returns (map (\<lambda>x. map2 (\<le>) r1 x) X)"
           "np_le X [r2] = Returns (map (\<lambda>x. map2 (\<le>) x r2) X)"
           "np_le [r2] X = Returns (map (\<lambda>x. map2 (\<le>) r2 x) X)"
           "np_le X [r1] = Returns (map (\<lambda>x. map2 (\<le>) x r1) X)"
    using X r1 r2 by (simp_all add: np_le_row_left np_le_row_right)
  have and1: "np_and (map (\<lambda>x. map2 (\<le>) r1 x) X) (map (\<lambda>x. map2 (\<le>) x r2) X)
      = Returns (map (\<lambda>x. map2 (\<and>) (map2 (\<le>) r1 x) (map2 (\<le>) x r2)) X)"
    unfolding np_and_def
    by (subst broadcast2_same_shape) (use X r1 r2 in \<open>auto simp: zip_map_map zip_same_conv_map\<close>)
  have and2: "np_and (map (\<lambda>x. map2 (\<le>) r2 x) X) (map (\<lambda>x. map2 (\<le>) x r1) X)
      = Returns (map (\<lambda>x. map2 (\<and>) (map2 (\<le>) r2 x) (map2 (\<le>) x r1)) X)"
    unfolding np_and_def
    by (subst broadcast2_same_shape) (use X r1 r2 in \<open>auto simp: zip_map_map zip_same_conv_map\<close>)
  have or: "np_or (map (\<lambda>x. map2 (\<and>) (map2 (\<le>) r1 x) (map2 (\<le>) x r2)) X)
                  (map (\<lambda>x. map2 (\<and>) (map2 (\<le>) r2 x) (map2 (\<le>) x r1)) X)
      = Returns (map (row_mask r1 r2) X)"
    unfolding np_or_def row_mask_def
    by (subst broadcast2_same_shape) (use X r1 r2 in \<open>auto simp: zip_map_map zip_same_conv_map\<close>)
  have all: "np_all_rows (map (row_mask r1 r2) X) = map (in_band r1 r2) X"
    using X r1 r2 by (simp add: np_all_rows_def list_all_row_mask)
  show ?thesis
    by (simp add: le and1 and2 or all)
qed

lemma combinations2_map: "combinations2 (map f xs) = map (map_prod f f) (combinations2 xs)"
  by (induction xs) simp_all

lemma length_combinations2: "length (combinations2 xs) = length xs choose 2"
  by (induction xs) (simp_all add: numeral_2_eq_2)

lemma set_combinations2_subset: "set (combinations2 xs) \<subseteq> set xs \<times> set xs"
  by (induction xs) auto

lemma predict_step_rows:
  assumes "\<forall>x \<in> set (data_matrix X). length x = G" and "length r1 = G" and "length r2 = G"
  shows "predict_step X (D\<lparr>data_matrix := [r1]\<rparr>, D\<lparr>data_matrix := [r2]\<rparr>) (num_in, n_total)
       = bind (iadd num_in (map (in_band r1 r2) (data_matrix X))) (\<lambda>num_in'. Returns (num_in', n_total + 1))"
  unfolding predict_step_def prod.case
  using between_range_rows [OF assms, of "\<lambda>bs. bind (iadd num_in bs) (\<lambda>num_in'. Returns (num_in', n_total + 1))"]
  by simp

lemma iadd_array:
  "length v = length bs \<Longrightarrow> iadd (NdArray v) bs = Returns (NdArray (map2 (\<lambda>a b. a + of_bool b) v bs))"
  by (simp add: broadcast_same_length)

lemma predict_loop_array:
  assumes "\<forall>x \<in> set (data_matrix X). length x = G"
    and "\<forall>(r1, r2) \<in> set ps. length r1 = G \<and> length r2 = G"
    and "length v = length (data_matrix X)"
  shows "predict_loop X (map (map_prod (\<lambda>r. D\<lparr>data_matrix := [r]\<rparr>) (\<lambda>r. D\<lparr>data_matrix := [r]\<rparr>)) ps) (NdArray v, c)
       = Returns (NdArray (map2 (\<lambda>a x. a + int (count_in ps x)) v (data_matrix X)), c + length ps)"
  using assms(2,3)
proof (induction ps arbitrary: v c)
  case Nil
  then show ?case
    by (simp add: count_in_def map_fst_zip [unfolded fst_def])
next
  case (Cons p ps)
  obtain r1 r2 where p: "p = (r1, r2)" by (cases p)
  let ?v = "map2 (\<lambda>a b. a + of_bool b) v (map (in_band r1 r2) (data_matrix X))"
  have len: "length r1 = G" "length r2 = G"
    using Cons.prems(1) p by auto
  have step: "predict_step X (D\<lparr>data_matrix := [r1]\<rparr>, D\<lparr>data_matrix := [r2]\<rparr>) (NdArray v, c)
      = Returns (NdArray ?v, c + 1)"
    using Cons.prems(2) by (simp add: predict_step_rows [OF assms(1) len] iadd_array del: iadd.simps)
  have IH: "predict_loop X (map (map_prod (\<lambda>r. D\<lparr>data_matrix := [r]\<rparr>) (\<lambda>r. D\<lparr>data_matrix := [r]\<rparr>)) ps) (NdArray ?v, c + 1)
      = Returns (NdArray (map2 (\<lambda>a x. a + int (count_in ps x)) ?v (data_matrix X)), c + 1 + length ps)"
    using Cons.prems by (intro Cons.IH) auto
  have vec: "map2 (\<lambda>a x. a + int (count_in ps x)) ?v (data_matrix X)
      = map2 (\<lambda>a x. a + int (count_in (p # ps) x)) v (data_matrix X)"
    using Cons.prems(2) by (intro nth_equalityI) (auto simp: p count_in_def)
  show ?case
    using IH vec by (simp add: p step)
qed

lemma predict_loop_start:
  assumes X: "\<forall>x \<in> set (data_matrix X). length x = G"
    and ps: "\<forall>(r1, r2) \<in> set ps. length r1 = G \<and> length r2 = G" and ne: "ps \<noteq> []"
  shows "predict_loop X (map (map_prod (\<lambda>r. D\<lparr>data_matrix := [r]\<rparr>) (\<lambda>r. D\<lparr>data_matrix := [r]\<rparr>)) ps) (PyInt 0, 0)
       = Returns (NdArray (map (\<lambda>x. int (count_in ps x)) (data_matrix X)), length ps)"
proof -
  obtain r1 r2 qs where ps_eq: "ps = (r1, r2) # qs"
    using ne by (cases ps) auto
  let ?v = "map (\<lambda>x. of_bool (in_band r1 r2 x)) (data_matrix X) :: int list"
  have len: "length r1 = G" "length r2 = G"
    using ps ps_eq by auto
  have step: "predict_step X (D\<lparr>data_matrix := [r1]\<rparr>, D\<lparr>data_matrix := [r2]\<rparr>) (PyInt 0, 0)
      = Returns (NdArray ?v, 1)"
    by (simp add: predict_step_rows [OF X len] comp_def)
  have loop: "predict_loop X (map (map_prod (\<lambda>r. D\<lparr>data_matrix := [r]\<rparr>) (\<lambda>r. D\<lparr>data_matrix := [r]\<rparr>)) qs) (NdArray ?v, 1)
      = Returns (NdArray (map2 (\<lambda>a x. a + int (count_in qs x)) ?v (data_matrix X)), 1 + length qs)"
    using ps ps_eq by (intro predict_loop_array [OF X]) auto
  have vec: "map2 (\<lambda>a x. a + int (count_in qs x)) ?v (data_matrix X)
      = map (\<lambda>x. int (count_in ps x)) (data_matrix X)"
    by (intro nth_equalityI) (auto simp: ps_eq count_in_def)
  show ?thesis
    using loop vec by (simp add: ps_eq step)
qed

lemma filter_Pair_length:
  "length (filter (\<lambda>(a, b). P a b) (map (Pair x) xs)) = length (filter (P x) xs)"
  by (induction xs) auto

lemma pairs_Cons_split:
  "{(i, j) \<in> {..<Suc n} \<times> {..<Suc n}. i < j \<and> Q i j}
     = (\<lambda>j. (0, Suc j)) ` {j. j < n \<and> Q 0 (Suc j)}
       \<union> map_prod Suc Suc ` {(i, j) \<in> {..<n} \<times> {..<n}. i < j \<and> Q (Suc i) (Suc j)}"
  (is "?S = ?A \<union> ?B")
proof (rule set_eqI)
  fix p :: "nat \<times> nat"
  obtain i j where p: "p = (i, j)" by (cases p)
  show "p \<in> ?S \<longleftrightarrow> p \<in> ?A \<union> ?B"
  proof (cases j)
    case 0
    then show ?thesis by (auto simp: p)
  next
    case (Suc j')
    show ?thesis
    proof (cases i)
      case 0
      then show ?thesis unfolding p Suc by force
    next
      case (Suc i')
      then show ?thesis unfolding p \<open>j = Suc j'\<close> by force
    qed
  qed
qed

lemma filter_combinations2_card:
  "length (filter (\<lambda>(a, b). P a b) (combinations2 xs))
     = card {(i, j) \<in> {..<length xs} \<times> {..<length xs}. i < j \<and> P (xs ! i) (xs ! j)}"
proof (induction xs)
  case Nil
  then show ?case by simp
next
  case (Cons x xs)
  let ?n = "length xs"
  let ?A = "(\<lambda>j. (0::nat, Suc j)) ` {j. j < ?n \<and> P x (xs ! j)}"
  let ?C = "{(i, j) \<in> {..<?n} \<times> {..<?n}. i < j \<and> P (xs ! i) (xs ! j)}"
  let ?B = "map_prod Suc Suc ` ?C"
  have split: "{(i, j) \<in> {..<length (x # xs)} \<times> {..<length (x # xs)}. i < j \<and> P ((x # xs) ! i) ((x # xs) ! j)}
      = ?A \<union> ?B"
    using pairs_Cons_split [of ?n "\<lambda>i j. P ((x # xs) ! i) ((x # xs) ! j)"] by simp
  have disj: "?A \<inter> ?B = {}" by auto
  have finC: "finite ?C"
    by (rule finite_subset [of _ "{..<?n} \<times> {..<?n}"]) auto
  have fin: "finite ?A" "finite ?B"
    using finC by simp_all
  have cA: "card ?A = length (filter (P x) xs)"
    by (subst card_image) (simp_all add: inj_on_def length_filter_conv_card)
  have cB: "card ?B = card ?C"
    by (rule card_image) (simp add: inj_on_def)
  have "length (filter (\<lambda>(a, b). P a b) (combinations2 (x # xs)))
      = length (filter (\<lambda>(a, b). P a b) (map (Pair x) xs))
        + length (filter (\<lambda>(a, b). P a b) (combinations2 xs))"
    by simp
  also have "\<dots> = card ?A + card ?C"
    by (simp only: filter_Pair_length cA Cons.IH)
  also have "\<dots> = card ?A + card ?B"
    by (simp only: cB)
  also have "\<dots> = card (?A \<union> ?B)"
    by (rule card_Un_disjoint [symmetric, OF fin disj])
  finally show ?case
    by (simp only: split)
qed

lemma count_in_combinations2:
  "count_in (combinations2 D) x = card (containing_pairs D x)"
  unfolding count_in_def containing_pairs_def by (rule filter_combinations2_card)

lemma BandDepth_fit_Returns:
  "BandDepth_fit self0 D = Returns self \<Longrightarrow> distribution self = Some D \<and> dim_codomain D = 1"
  by (auto simp: BandDepth_fit_def split: if_splits)

text \<open>
  Claim C1. For a band depth fitted on a reference sample of at least two functions, all
  sampled on the grid of the query, \<^verbatim>\<open>predict\<close> returns for every query function the number of
  unordered pairs of reference functions whose band holds the query at every grid point,
  divided by the number of pairs, \<open>N choose 2\<close>.
\<close>

theorem BandDepth_predict_pair_fraction:
  assumes fitted: "BandDepth_fit self0 D = Returns self"
    and N: "2 \<le> length (data_matrix D)"
    and D: "\<forall>r \<in> set (data_matrix D). length r = G"
    and X: "\<forall>x \<in> set (data_matrix X). length x = G"
  shows "BandDepth_predict self X
       = Returns (FloatArray (map (band_depth_spec (data_matrix D)) (data_matrix X)))"
proof -
  let ?ps = "combinations2 (data_matrix D)"
  let ?mk = "\<lambda>r. D\<lparr>data_matrix := [r]\<rparr>"
  have dist: "distribution self = Some D"
    using fitted by (simp add: BandDepth_fit_Returns)
  have pairs: "combinations2 (iter_samples D) = map (map_prod ?mk ?mk) ?ps"
    by (simp add: iter_samples_def combinations2_map)
  have len: "length ?ps = length (data_matrix D) choose 2"
    by (rule length_combinations2)
  have pos: "0 < length ?ps"
    unfolding len using N by (simp add: zero_less_binomial_iff)
  have rows: "\<forall>(r1, r2) \<in> set ?ps. length r1 = G \<and> length r2 = G"
    using set_combinations2_subset [of "data_matrix D"] D by blast
  have loop: "predict_loop X (combinations2 (iter_samples D)) (PyInt 0, 0)
      = Returns (NdArray (map (\<lambda>x. int (count_in ?ps x)) (data_matrix X)), length ?ps)"
    unfolding pairs using pos by (intro predict_loop_start [OF X rows]) auto
  have depth: "real_of_int (int (count_in ?ps x)) / real (length ?ps)
      = band_depth_spec (data_matrix D) x" for x
    by (simp add: band_depth_spec_def count_in_combinations2 len)
  show ?thesis
    using pos depth by (simp add: BandDepth_predict_def dist loop comp_def)
qed

text \<open>The definitions that the evaluation of \<^verbatim>\<open>predict\<close> on a concrete sample unfolds.\<close>

lemmas predict_code_defs =
  BandDepth_predict_def iter_samples_def predict_step_def np_le_def np_and_def np_or_def
  broadcast_def np_all_rows_def

text \<open>
  The theorem at a sample of three functions on two grid points: each of them lies in two
  of the three bands.
\<close>

theorem BandDepth_predict_pair_fraction_witness:
  "map (band_depth_spec (data_matrix fd_small)) (data_matrix fd_small) = [2/3, 2/3, 2/3]"
proof -
  have "BandDepth_predict \<lparr>distribution = Some fd_small\<rparr> fd_small
      = Returns (FloatArray (map (band_depth_spec (data_matrix fd_small)) (data_matrix fd_small)))"
    by (rule BandDepth_predict_pair_fraction [of "\<lparr>distribution = None\<rparr>" _ _ 2])
      (simp_all add: BandDepth_fit_def fd_small_def)
  moreover have "BandDepth_predict \<lparr>distribution = Some fd_small\<rparr> fd_small
      = Returns (FloatArray [2/3, 2/3, 2/3])"
    by (simp add: predict_code_defs fd_small_def)
  ultimately show ?thesis
    by simp
qed

text \<open>
  Claim C8. Fitting the band depth on the four curves of the docstring and predicting the
  same sample yields the depths 1/2, 5/6, 1/2, 1/2.
\<close>

theorem BandDepth_example_values:
  "bind (BandDepth_fit \<lparr>distribution = None\<rparr> fd_example) (\<lambda>depth. BandDepth_predict depth fd_example)
     = Returns (FloatArray [1/2, 5/6, 1/2, 1/2])"
  by (simp add: BandDepth_fit_def predict_code_defs fd_example_def)

text \<open>
  Claim C6. \<^verbatim>\<open>BandDepth.fit\<close> raises \<^verbatim>\<open>NotImplementedError\<close> when the dimension of the codomain is
  not 1; otherwise it returns the estimator with the sample stored. It returns exactly for
  scalar-valued samples.
\<close>

theorem BandDepth_fit_scalar_only:
  "(dim_codomain X \<noteq> 1 \<longrightarrow> BandDepth_fit self X = Raises NotImplementedError)
   \<and> (dim_codomain X = 1 \<longrightarrow> BandDepth_fit self X = Returns (self\<lparr>distribution := Some X\<rparr>))
   \<and> ((\<exists>self'. BandDepth_fit self X = Returns self') \<longleftrightarrow> dim_codomain X = 1)"
  by (simp add: BandDepth_fit_def)

text \<open>The theorem at a vector-valued sample, refused, and at a scalar-valued one, stored.\<close>

theorem BandDepth_fit_scalar_only_witness:
  "BandDepth_fit \<lparr>distribution = None\<rparr> fd_vector = Raises NotImplementedError
   \<and> BandDepth_fit \<lparr>distribution = None\<rparr> fd_small = Returns \<lparr>distribution = Some fd_small\<rparr>"
  using BandDepth_fit_scalar_only [of fd_vector "\<lparr>distribution = None\<rparr>"]
    BandDepth_fit_scalar_only [of fd_small "\<lparr>distribution = None\<rparr>"]
  by (simp add: fd_vector_def fd_small_def)

text \<open>
  Claim C9, as stated, fails: on a reference sample of one function \<^verbatim>\<open>predict\<close> ends in
  \<^verbatim>\<open>ZeroDivisionError\<close>, which no validation of the module raises.
\<close>

theorem BandDepth_predict_no_pairs_counterexample:
  "BandDepth_predict \<lparr>distribution = Some fd_single\<rparr> fd_single = Raises ZeroDivisionError
   \<and> \<not> explicit_raise ZeroDivisionError"
  by (simp add: predict_code_defs fd_single_def explicit_raise_def)

text \<open>
  Claim C9, amended. On a reference sample of fewer than two functions the loop over the
  pairs does not run, and the final division of the integer 0 by the integer 0 raises
  \<^verbatim>\<open>ZeroDivisionError\<close>, for every query: nothing is returned, so no \<^verbatim>\<open>nan\<close> or \<^verbatim>\<open>inf\<close> either.
\<close>

theorem BandDepth_predict_no_pairs:
  assumes "BandDepth_fit self0 D = Returns self" and "length (data_matrix D) < 2"
  shows "BandDepth_predict self X = Raises ZeroDivisionError"
proof -
  have "distribution self = Some D"
    using assms(1) by (simp add: BandDepth_fit_Returns)
  moreover have "combinations2 (iter_samples D) = []"
    using assms(2) by (cases "data_matrix D"; cases "tl (data_matrix D)") (auto simp: iter_samples_def)
  ultimately show ?thesis
    by (simp add: BandDepth_predict_def)
qed

text \<open>The theorem at a reference sample of one function and a query of three.\<close>

theorem BandDepth_predict_no_pairs_witness:
  "BandDepth_predict \<lparr>distribution = Some fd_single\<rparr> fd_small = Raises ZeroDivisionError"
  using BandDepth_predict_no_pairs [of "\<lparr>distribution = None\<rparr>" fd_single "\<lparr>distribution = Some fd_single\<rparr>" fd_small]
  by (simp add: BandDepth_fit_def fd_single_def)

section \<open>Proofs: integrated depth\<close>

lemma bind_assoc: "bind (bind c f) g = bind c (\<lambda>a. bind (f a) g)"
  by (cases c) simp_all

lemma sequence_map_bind:
  "sequence (map (\<lambda>x. bind (f x) (\<lambda>r. Returns (g r))) xs)
     = bind (sequence (map f xs)) (\<lambda>rs. Returns (map g rs))"
proof (induction xs)
  case Nil
  then show ?case by simp
next
  case (Cons x xs)
  show ?case
  proof (cases "f x")
    case (Returns a)
    then show ?thesis
      using Cons.IH by (cases "sequence (map f xs)") simp_all
  qed simp_all
qed

lemma sequence_Returns_length: "sequence cs = Returns rs \<Longrightarrow> length rs = length cs"
proof (induction cs arbitrary: rs)
  case Nil
  then show ?case by simp
next
  case (Cons c cs)
  then show ?case
    by (cases c; cases "sequence cs") auto
qed

lemma weighted_sum_scale:
  "(k::real) * (y0 / c * a + y1 / c * b + y2 / c * d) = k * (y0 * a + y1 * b + y2 * d) / c"
proof -
  have "y0 / c * a + y1 / c * b + y2 / c * d = (y0 * a + y1 * b + y2 * d) / c"
    by (simp add: add_divide_distrib)
  then show ?thesis
    by simp
qed

lemma simps_panel_scale:
  "simps_panel x0 x1 x2 (y0 / c) (y1 / c) (y2 / c)
     = bind (simps_panel x0 x1 x2 y0 y1 y2) (\<lambda>r. Returns (r / c))"
  unfolding simps_panel_def Let_def by (simp only: weighted_sum_scale bind.simps if_distrib [of "\<lambda>c. bind c _"] cong: if_cong)

lemma basic_simps_scale:
  "basic_simps (map (\<lambda>v. v / c) ys) xs = bind (basic_simps ys xs) (\<lambda>r. Returns (r / c))"
proof (induction ys xs rule: basic_simps.induct)
  case (1 y0 y1 y2 ys x0 x1 x2 xs)
  show ?case
  proof (cases "simps_panel x0 x1 x2 y0 y1 y2")
    case (Returns p)
    then show ?thesis
      using 1 by (cases "basic_simps (y2 # ys) (x2 # xs)") (simp_all add: simps_panel_scale add_divide_distrib)
  qed (simp_all add: simps_panel_scale)
qed simp_all

lemma simps_even:
  assumes "length x = length y" and "y \<noteq> []" and "even (length y)"
  shows "simps y x =
     bind (basic_simps (butlast y) (butlast x)) (\<lambda>r1.
     bind (basic_simps (tl y) (tl x)) (\<lambda>r2. Returns ((r1 + r2) / 2 + simps_ends y x)))"
  using assms by (simp add: simps_def Let_def simps_ends_def)

lemma simps_odd:
  assumes "length x = length y" and "odd (length y)"
  shows "simps y x = basic_simps y x"
  using assms by (auto simp: simps_def Let_def)

lemma simps_ends_scale:
  assumes "2 \<le> length y"
  shows "simps_ends (map (\<lambda>v. v / c) y) x = simps_ends y x / c"
proof -
  obtain ys a b where y: "y = ys @ [a, b]"
    using assms
    by (cases y rule: rev_cases; cases "butlast y" rule: rev_cases) auto
  obtain y0 y1 rest where y': "y = y0 # y1 # rest"
    using assms by (cases y; cases "tl y") auto
  have ends: "last (map (\<lambda>v. v / c) y) = b / c" "last (butlast (map (\<lambda>v. v / c) y)) = a / c"
    "last y = b" "last (butlast y) = a"
    by (simp_all add: y butlast_append)
  have heads: "map (\<lambda>v. v / c) y ! 0 = y0 / c" "map (\<lambda>v. v / c) y ! 1 = y1 / c" "y ! 0 = y0" "y ! 1 = y1"
    by (simp_all add: y')
  show ?thesis
    unfolding simps_ends_def ends heads
    by (cases "c = 0") (simp_all add: field_simps)
qed

lemma mean_scale: "(r1 / c + r2 / c) / 2 + e / c = ((r1 + r2) / 2 + e) / (c::real)"
  by (cases "c = 0") (simp_all add: field_simps)

lemma simps_scale:
  "simps (map (\<lambda>v. v / c) ys) xs = bind (simps ys xs) (\<lambda>r. Returns (r / c))"
proof (cases "length xs = length ys \<and> ys \<noteq> [] \<and> even (length ys)")
  case False
  then show ?thesis
    by (auto simp: simps_def Let_def basic_simps_scale)
next
  case True
  then have len: "2 \<le> length ys"
    by (cases ys; cases "tl ys") auto
  have lhs: "simps (map (\<lambda>v. v / c) ys) xs =
     bind (basic_simps (map (\<lambda>v. v / c) (butlast ys)) (butlast xs)) (\<lambda>r1.
     bind (basic_simps (map (\<lambda>v. v / c) (tl ys)) (tl xs)) (\<lambda>r2.
       Returns ((r1 + r2) / 2 + simps_ends ys xs / c)))"
    using True by (subst simps_even) (simp_all add: map_butlast map_tl simps_ends_scale [OF len])
  have rhs: "simps ys xs =
     bind (basic_simps (butlast ys) (butlast xs)) (\<lambda>r1.
     bind (basic_simps (tl ys) (tl xs)) (\<lambda>r2. Returns ((r1 + r2) / 2 + simps_ends ys xs)))"
    using True by (intro simps_even) simp_all
  show ?thesis
    unfolding lhs rhs basic_simps_scale
    by (cases "basic_simps (butlast ys) (butlast xs)"; cases "basic_simps (tl ys) (tl xs)")
      (simp_all add: mean_scale)
qed

lemma index_bound:
  assumes "m < M" and "i < G" and "j < (stride::nat)"
  shows "(m * G + i) * stride + j < M * G * stride"
proof -
  have "m * G + i < M * G"
  proof -
    have "m * G + i < m * G + G" using assms(2) by simp
    also have "\<dots> = Suc m * G" by simp
    also have "\<dots> \<le> M * G" using assms(1) by (intro mult_le_mono1) simp
    finally show ?thesis .
  qed
  then have "Suc (m * G + i) * stride \<le> M * G * stride"
    by (intro mult_le_mono1) simp
  moreover have "(m * G + i) * stride + j < Suc (m * G + i) * stride"
    using assms(3) by simp
  ultimately show ?thesis by linarith
qed

lemma sequence_cong:
  "(\<And>x. x \<in> set xs \<Longrightarrow> f x = g x) \<Longrightarrow> sequence (map f xs) = sequence (map g xs)"
  by (induction xs) simp_all

lemma simps_axis1_scale:
  assumes "well_formed y"
  shows "simps_axis1 (scale c y) x = bind (simps_axis1 y x) (\<lambda>r. Returns (scale c r))"
proof (cases "shape y")
  case Nil
  then show ?thesis by (simp add: simps_axis1_def scale_def)
next
  case (Cons M rest')
  show ?thesis
  proof (cases rest')
    case Nil
    then show ?thesis using Cons by (simp add: simps_axis1_def scale_def)
  next
    case (Cons G rest)
    have sh: "shape y = M # G # rest"
      using \<open>shape y = M # rest'\<close> Cons by simp
    have len: "length (data y) = M * G * prod_list rest"
      using assms sh by (simp add: well_formed_def mult.assoc)
    let ?stride = "prod_list rest"
    let ?col = "\<lambda>d m j. map (\<lambda>i. d ! ((m * G + i) * ?stride + j)) [0..<G]"
    let ?pairs = "List.product [0..<M] [0..<?stride]"
    have col: "?col (map (\<lambda>v. v / c) (data y)) m j = map (\<lambda>v. v / c) (?col (data y) m j)"
      if "m < M" "j < ?stride" for m j
      using that len by (simp add: index_bound)
    have "sequence (map (\<lambda>(m, j). simps (?col (map (\<lambda>v. v / c) (data y)) m j) x) ?pairs)
        = sequence (map (\<lambda>(m, j). bind (simps (?col (data y) m j) x) (\<lambda>r. Returns (r / c))) ?pairs)"
    proof (rule sequence_cong)
      fix p assume "p \<in> set ?pairs"
      then obtain m j where p: "p = (m, j)" and m: "m < M" and j: "j < ?stride"
        by auto
      show "(case p of (m, j) \<Rightarrow> simps (?col (map (\<lambda>v. v / c) (data y)) m j) x)
          = (case p of (m, j) \<Rightarrow> bind (simps (?col (data y) m j) x) (\<lambda>r. Returns (r / c)))"
        unfolding p prod.case col [OF m j] by (rule simps_scale)
    qed
    also have "\<dots> = bind (sequence (map (\<lambda>(m, j). simps (?col (data y) m j) x) ?pairs))
        (\<lambda>rs. Returns (map (\<lambda>r. r / c) rs))"
      using sequence_map_bind [of "\<lambda>(m, j). simps (?col (data y) m j) x" "\<lambda>r. r / c" ?pairs]
      by (simp add: case_prod_unfold)
    finally have seq: "sequence (map (\<lambda>(m, j). simps (?col (map (\<lambda>v. v / c) (data y)) m j) x) ?pairs)
        = bind (sequence (map (\<lambda>(m, j). simps (?col (data y) m j) x) ?pairs))
            (\<lambda>rs. Returns (map (\<lambda>r. r / c) rs))" .
    show ?thesis
      by (simp add: simps_axis1_def scale_def sh seq Let_def bind_assoc)
  qed
qed

lemma simps_axis1_well_formed:
  assumes "simps_axis1 y x = Returns r"
  shows "well_formed r"
proof -
  obtain M G rest where sh: "shape y = M # G # rest"
    using assms by (cases "shape y"; cases "tl (shape y)") (auto simp: simps_axis1_def)
  let ?cs = "map (\<lambda>(m, j). simps (map (\<lambda>i. data y ! ((m * G + i) * prod_list rest + j)) [0..<G]) x)
     (List.product [0..<M] [0..<prod_list rest])"
  from assms obtain rs where rs: "sequence ?cs = Returns rs" and r: "r = \<lparr>shape = M # rest, data = rs\<rparr>"
    by (cases "sequence ?cs") (auto simp: simps_axis1_def sh Let_def split: if_splits)
  have "length rs = M * prod_list rest"
    using sequence_Returns_length [OF rs] by simp
  then show ?thesis
    by (simp add: well_formed_def r)
qed

lemma scale_one: "scale 1 y = y"
  by (simp add: scale_def)

lemma scale_scale: "scale d (scale c y) = scale (c * d) y"
  by (simp add: scale_def)

lemma np_idiv_nonzero: "c \<noteq> 0 \<Longrightarrow> np_idiv y c = Returns (scale c y)"
  by (simp add: np_idiv_def scale_def)

lemma prod_list_lengths_nonzero:
  "\<forall>(lo, hi) \<in> set rs. lo \<noteq> hi \<Longrightarrow> prod_list (map (\<lambda>(lo, hi). hi - lo) rs) \<noteq> (0::real)"
  by (induction rs) auto

lemma integrate_loop_scaled:
  assumes "length rs = length ss" and "\<forall>(lo, hi) \<in> set rs. lo \<noteq> hi" and "well_formed A" and "c \<noteq> 0"
  shows "bind (integrate_loop (zip rs ss) (scale c A, l)) (\<lambda>(integrand, interval_len). Returns integrand)
       = bind (integrate_dims A ss) (\<lambda>I. Returns (scale (c * prod_list (map (\<lambda>(lo, hi). hi - lo) rs)) I))"
  using assms
proof (induction rs ss arbitrary: A c l rule: list_induct2)
  case Nil
  then show ?case by simp
next
  case (Cons r rs s ss)
  obtain lo hi where r: "r = (lo, hi)" by (cases r)
  have len: "hi - lo \<noteq> 0" and rest: "\<forall>(lo, hi) \<in> set rs. lo \<noteq> hi"
    using Cons.prems(1) r by auto
  show ?case
  proof (cases "simps_axis1 A s")
    case (Returns B)
    have wf: "well_formed B"
      using Returns by (rule simps_axis1_well_formed)
    have "bind (integrate_loop (zip rs ss) (scale (c * (hi - lo)) B, hi - lo)) (\<lambda>(integrand, interval_len). Returns integrand)
        = bind (integrate_dims B ss)
            (\<lambda>I. Returns (scale (c * (hi - lo) * prod_list (map (\<lambda>(lo, hi). hi - lo) rs)) I))"
      using rest wf Cons.prems(3) len by (intro Cons.IH) simp_all
    then show ?thesis
      using Returns len
      by (simp add: r simps_axis1_scale [OF Cons.prems(2)] np_idiv_nonzero scale_scale mult.assoc Let_def)
  qed (simp_all add: r simps_axis1_scale [OF Cons.prems(2)])
qed

lemma integrate_loop_initial_length:
  "bind (integrate_loop zs (A, l)) (\<lambda>(integrand, interval_len). Returns integrand)
     = bind (integrate_loop zs (A, l')) (\<lambda>(integrand, interval_len). Returns integrand)"
proof (cases zs)
  case Nil
  then show ?thesis by simp
next
  case (Cons z zs')
  then show ?thesis by (cases z) (simp add: Let_def)
qed

lemma IntegratedDepth_fit_Returns:
  assumes "IntegratedDepth_fit mv_fit self0 X0 = Returns self"
  shows "fitted_domain_range self = Some (domain_range X0)"
    and "fitted_grid_points self = Some (grid_points X0)"
    and "mv_fit (multivariate_depth self0) (data_matrix X0) = Returns (multivariate_depth self)"
  using assms
  by (cases "mv_fit (multivariate_depth self0) (data_matrix X0)"; auto simp: IntegratedDepth_fit_def)+

text \<open>
  Claim C3. For a fitted integrated depth and a query whose domain intervals are not
  degenerate, \<^verbatim>\<open>predict\<close> equals the pointwise depth integrated by Simpson's rule over every
  domain dimension in turn and divided, at the end, by the product of all the interval
  lengths: dividing the running result by the length of each dimension at each step
  gives the average of the pointwise depth over the domain. Where an integration fails,
  both fail alike.
\<close>

theorem IntegratedDepth_predict_average:
  assumes fitted: "IntegratedDepth_fit mv_fit self0 X0 = Returns self" and k0: "domain_range X0 \<noteq> []"
    and pw: "mv_predict (multivariate_depth self) (data_matrix X) = Returns P"
    and wf: "well_formed P"
    and k: "length (domain_range X) = length (grid_points X)"
    and nondeg: "\<forall>(lo, hi) \<in> set (domain_range X). lo \<noteq> hi"
  shows "IntegratedDepth_predict mv_predict self X
       = average_depth_spec P (domain_range X) (grid_points X)"
proof -
  obtain d ds where dr: "fitted_domain_range self = Some (d # ds)"
    using IntegratedDepth_fit_Returns(1) [OF fitted] k0 by (cases "domain_range X0") auto
  have loop: "bind (integrate_loop (zip (domain_range X) (grid_points X)) (P, snd d - fst d))
        (\<lambda>(integrand, interval_len). Returns integrand)
      = bind (integrate_dims P (grid_points X))
          (\<lambda>I. Returns (scale (prod_list (map (\<lambda>(lo, hi). hi - lo) (domain_range X))) I))"
    using integrate_loop_scaled [OF k nondeg wf, of 1 "snd d - fst d"] by (simp add: scale_one)
  have spec: "average_depth_spec P (domain_range X) (grid_points X)
      = bind (integrate_dims P (grid_points X))
          (\<lambda>I. Returns (scale (prod_list (map (\<lambda>(lo, hi). hi - lo) (domain_range X))) I))"
    using prod_list_lengths_nonzero [OF nondeg] by (simp add: average_depth_spec_def np_idiv_nonzero)
  show ?thesis
    by (simp add: IntegratedDepth_predict_def pw dr loop spec)
qed

text \<open>
  The theorem at the surface \<open>x + y\<close> on \<open>[0, 2] \<times> [0, 2]\<close>: its integral is 8, the area 4, the
  average 2.
\<close>

theorem IntegratedDepth_predict_average_witness:
  "average_depth_spec \<lparr>shape = [1, 3, 2], data = [0, 2, 1, 3, 2, 4]\<rparr> [(0, 2), (0, 2)] [[0, 1, 2], [0, 2]]
     = Returns \<lparr>shape = [1], data = [2]\<rparr>"
proof -
  let ?self = "\<lparr>multivariate_depth = (), fitted_domain_range = Some [(0, 2)],
                  fitted_grid_points = Some [[0, 1, 2]]\<rparr>"
  have "IntegratedDepth_predict value_depth_predict ?self fd_surface
      = average_depth_spec \<lparr>shape = [1, 3, 2], data = [0, 2, 1, 3, 2, 4]\<rparr>
          (domain_range fd_surface) (grid_points fd_surface)"
    by (rule IntegratedDepth_predict_average
          [of value_depth_fit "\<lparr>multivariate_depth = (), fitted_domain_range = None, fitted_grid_points = None\<rparr>" fd_curves])
      (simp_all add: IntegratedDepth_fit_def value_depth_fit_def value_depth_predict_def fd_curves_def
         fd_surface_def well_formed_def)
  moreover have "IntegratedDepth_predict value_depth_predict ?self fd_surface
      = Returns \<lparr>shape = [1], data = [2]\<rparr>"
    by code_simp
  ultimately show ?thesis
    by (simp add: fd_surface_def)
qed

text \<open>
  Claim C10. Two integrated depths fitted on samples of different domain ranges and grids,
  whose multivariate depths are in the same state, predict the same for every query: the
  loop reads the domain range and the grid of the query, and the interval length taken
  from the fitted domain range is overwritten before it is used.
\<close>

theorem IntegratedDepth_predict_ignores_fitted_domain:
  assumes "IntegratedDepth_fit mv_fit a X1 = Returns self1"
    and "IntegratedDepth_fit mv_fit b X2 = Returns self2"
    and "multivariate_depth self1 = multivariate_depth self2"
    and "domain_range X1 \<noteq> []" and "domain_range X2 \<noteq> []"
  shows "IntegratedDepth_predict mv_predict self1 X = IntegratedDepth_predict mv_predict self2 X"
proof -
  obtain d1 ds1 where dr1: "fitted_domain_range self1 = Some (d1 # ds1)"
    using IntegratedDepth_fit_Returns(1) [OF assms(1)] assms(4) by (cases "domain_range X1") auto
  obtain d2 ds2 where dr2: "fitted_domain_range self2 = Some (d2 # ds2)"
    using IntegratedDepth_fit_Returns(1) [OF assms(2)] assms(5) by (cases "domain_range X2") auto
  show ?thesis
    using integrate_loop_initial_length [of "zip (domain_range X) (grid_points X)" _ "snd d1 - fst d1" "snd d2 - fst d2"]
    by (cases "mv_predict (multivariate_depth self2) (data_matrix X)")
      (simp_all add: IntegratedDepth_predict_def dr1 dr2 assms(3))
qed

text \<open>The theorem at one estimator fitted on the two curves and one fitted on the surface.\<close>

theorem IntegratedDepth_predict_ignores_fitted_domain_witness:
  "IntegratedDepth_predict value_depth_predict
      \<lparr>multivariate_depth = (), fitted_domain_range = Some [(0, 2)], fitted_grid_points = Some [[0, 1, 2]]\<rparr> fd_curves
   = IntegratedDepth_predict value_depth_predict
      \<lparr>multivariate_depth = (), fitted_domain_range = Some [(0, 2), (0, 2)],
        fitted_grid_points = Some [[0, 1, 2], [0, 2]]\<rparr> fd_curves"
  using IntegratedDepth_predict_ignores_fitted_domain
    [of value_depth_fit "\<lparr>multivariate_depth = (), fitted_domain_range = None, fitted_grid_points = None\<rparr>" fd_curves _
        "\<lparr>multivariate_depth = (), fitted_domain_range = None, fitted_grid_points = None\<rparr>" fd_surface _
        value_depth_predict fd_curves]
  by (simp add: IntegratedDepth_fit_def value_depth_fit_def fd_curves_def fd_surface_def)

section \<open>Proofs: elastic metrics\<close>

lemma sorted_wrt_butlast: "sorted_wrt P xs \<Longrightarrow> sorted_wrt P (butlast xs)"
  by (cases xs rule: rev_cases) (simp_all add: sorted_wrt_append)

lemma sorted_wrt_tl: "sorted_wrt P xs \<Longrightarrow> sorted_wrt P (tl xs)"
  by (cases xs) simp_all

lemma np_sqrt_array_floored:
  "np_sqrt_array (map (\<lambda>v. if v < 0 then 0 else v) vs) = Returns (map (\<lambda>v. sqrt (max 0 v)) vs)"
proof -
  have "sequence (map (\<lambda>v. np_sqrt (if v < 0 then 0 else v)) vs)
      = Returns (map (\<lambda>v. sqrt (max 0 v)) vs)"
    by (rule sequence_cong_Returns) (auto simp: np_sqrt_def max_def)
  then show ?thesis
    by (simp add: np_sqrt_array_def comp_def)
qed

text \<open>The definitions that the evaluation of a distance on the example collaborators unfolds.\<close>

lemmas elastic_code_defs =
  example_collaborators_def example_derivative_def given_values_def item0_def normalize_scale_spec_def copy_def np_sqrt_array_def
  np_sqrt_def np_multiply_out_def np_clip_def SRSF_spec_def l2_distance_spec_def row_l2_def
  simps_def simps_panel_def Let_def

text \<open>
  Claim C2 fails on the code. With a warping derivative of \<open>-1, 1, 1\<close> on the grid
  \<open>0, 1/2, 1\<close>, \<^verbatim>\<open>phase_distance\<close> and, for a penalty of 1, \<^verbatim>\<open>amplitude_distance\<close> take the square
  root of \<open>-1\<close>: the result is \<^verbatim>\<open>nan\<close>. On the same derivative \<^verbatim>\<open>warping_distance\<close>, which
  floors the negative value first, returns \<open>arccos (5/6)\<close>.
\<close>

theorem negative_derivative_not_floored:
  "phase_distance (example_collaborators (given_values [- 1, 1, 1])) 0 fd_line fd_line = NonFinite
   \<and> amplitude_distance (example_collaborators (given_values [- 1, 1, 1])) 1 fd_line fd_line = NonFinite
   \<and> warping_distance (example_collaborators (given_values [- 1, 1, 1])) fd_line fd_line = Returns (arccos (5/6))"
  by (simp add: phase_distance_def amplitude_distance_def warping_distance_def fd_line_def
      elastic_code_defs)

text \<open>
  Claim C4. Once both warpings are cast to a grid, normalized to \<open>[0, 1]\<close> and
  differentiated, \<^verbatim>\<open>warping_distance\<close> floors the negative values of both derivatives to
  zero, takes the square roots, integrates the pointwise product by Simpson's rule on the
  grid of the first warping to a value \<open>d\<close>, clamps \<open>d\<close> into \<open>[-1, 1]\<close> and returns
  \<open>arccos d\<close>. No square root of a negative number is taken.
\<close>

theorem warping_distance_pipeline:
  assumes "cast_to_grid E warping1 warping2 = Returns (w1, w2)"
    and "normalize_warping E w1 (0, 1) = Returns n1"
    and "normalize_warping E w2 (0, 1) = Returns n2"
    and "derivative E n1 = Returns d1" and "data_matrix d1 = r1 # rest1"
    and "derivative E n2 = Returns d2" and "data_matrix d2 = r2 # rest2"
    and "length r1 = length r2"
    and "grid_points n1 = g # gs"
  shows "warping_distance E warping1 warping2
       = bind (simps (map2 (\<lambda>u v. sqrt (max 0 u) * sqrt (max 0 v)) r1 r2) g)
           (\<lambda>d. Returns (arccos (min 1 (max d (- 1)))))"
proof -
  have prod: "map2 (*) (map (\<lambda>v. sqrt (max 0 v)) r1) (map (\<lambda>v. sqrt (max 0 v)) r2)
      = map2 (\<lambda>u v. sqrt (max 0 u) * sqrt (max 0 v)) r1 r2"
    by (simp add: zip_map_map case_prod_unfold)
  show ?thesis
    using assms
    by (simp add: warping_distance_def item0_def np_sqrt_array_floored np_multiply_out_def
        np_clip_def Let_def prod)
qed

text \<open>
  The theorem at two warpings whose derivatives are \<open>1/4, 1, -1\<close> on the grid \<open>0, 1/2, 1\<close>:
  the product of the floored square roots is \<open>1/4, 1, 0\<close>, its integral \<open>17/24\<close>.
\<close>

theorem warping_distance_pipeline_witness:
  "warping_distance (example_collaborators (given_values [1/4, 1, - 1])) fd_line fd_line = Returns (arccos (17/24))"
  using warping_distance_pipeline
    [where E = "example_collaborators (given_values [1/4, 1, - 1])" and ?warping1.0 = fd_line and ?warping2.0 = fd_line
       and ?w1.0 = fd_line and ?w2.0 = fd_line and ?n1.0 = fd_line and ?n2.0 = fd_line
       and ?d1.0 = "fd_line\<lparr>data_matrix := [[1/4, 1, - 1]]\<rparr>" and ?r1.0 = "[1/4, 1, - 1]" and ?rest1.0 = "[]"
       and ?d2.0 = "fd_line\<lparr>data_matrix := [[1/4, 1, - 1]]\<rparr>" and ?r2.0 = "[1/4, 1, - 1]" and ?rest2.0 = "[]"
       and g = "[0, 1/2, 1]" and gs = "[]"]
  by (simp add: example_collaborators_def example_derivative_def given_values_def item0_def
      fd_line_def simps_def simps_panel_def Let_def)

lemma sqrt_quarter: "sqrt (1/4) = 1/2"
  by (rule real_sqrt_unique) (simp_all add: power2_eq_square)

lemma sqrt_25_quarters: "sqrt (25/4) = 5/2"
  by (rule real_sqrt_unique) (simp_all add: power2_eq_square)

lemmas differences_code_defs =
  three_point_differences_def parabola_slope_def

text \<open>
  The three-point differences of the two uneven warpings, and those of the values
  \<open>0, 9/10, 1\<close> on the grid \<open>0, 1/10, 1\<close>.
\<close>

lemma three_point_differences_examples:
  "three_point_differences [0, 7/16, 1/2, 9/16, 1] [0, 7/16, 7/8, 57/64, 1] = [- 17/4, 25/4, 29/8, 1/4, 1/4]"
  "three_point_differences [0, 7/16, 1/2, 9/16, 1] [0, 7/64, 1/8, 9/16, 1] = [1/4, 1/4, 29/8, 25/4, - 17/4]"
  "three_point_differences [0, 1/10, 1] [0, 9/10, 1] = [89/9, 73/9, - 71/9]"
  by (simp_all add: differences_code_defs)

text \<open>
  Claim C5, as stated, fails. On the uneven grid \<open>0, 7/16, 1/2, 9/16, 1\<close> the weights of
  Simpson's rule are \<open>13/84, 16/21, -5/6, 16/21, 13/84\<close>: the one at the middle point is
  negative. For the two strictly increasing warpings \<open>warping_early\<close> and \<open>warping_late\<close>, with
  their derivatives by three-point differences, \<^verbatim>\<open>warping_distance\<close> floors \<open>-17/4\<close> to 0 and
  integrates the product \<open>0, 5/4, 29/8, 5/4, 0\<close> of the square roots; the integral,
  \<open>-125/112\<close>, is clamped to \<open>-1\<close> and the distance is \<open>arccos (-1) = pi\<close>.
\<close>

theorem elastic_distances_range_counterexample:
  "warping_distance (example_collaborators three_point_differences) warping_early warping_late = Returns pi
   \<and> pi / 2 < pi"
  by (simp add: warping_distance_def warping_early_def warping_late_def differences_code_defs
      elastic_code_defs sqrt_quarter sqrt_25_quarters)

subsection \<open>The range of the arc-cosine distances\<close>

lemma gentle_tl: "gentle xs \<Longrightarrow> gentle (tl xs)"
  by (induction xs rule: gentle.induct) simp_all

lemma gentle_butlast: "gentle xs \<Longrightarrow> gentle (butlast xs)"
proof (induction xs rule: gentle.induct)
  case (1 x0 x1 x2 xs)
  then show ?case
    by (cases xs) simp_all
qed simp_all

lemma simps_panel_nonneg:
  assumes "x0 < x1" and "x1 < x2" and "x2 - x1 \<le> 2 * (x1 - x0)" and "x1 - x0 \<le> 2 * (x2 - x1)"
    and "0 \<le> y0" and "0 \<le> y1" and "0 \<le> y2"
  shows "\<exists>p. simps_panel x0 x1 x2 y0 y1 y2 = Returns p \<and> 0 \<le> p"
proof -
  let ?h0 = "x1 - x0" and ?h1 = "x2 - x1"
  have h: "0 < ?h0" "0 < ?h1"
    using assms(1,2) by simp_all
  have w0: "0 \<le> 2 - 1 / (?h0 / ?h1)"
    using h assms(3) by (simp add: field_simps)
  have w2: "0 \<le> 2 - ?h0 / ?h1"
    using h assms(4) by (simp add: field_simps)
  have w1: "0 \<le> (?h0 + ?h1) * (?h0 + ?h1) / (?h0 * ?h1)"
    using h by simp
  have nonneg: "0 \<le> (?h0 + ?h1) / 6 * (y0 * (2 - 1 / (?h0 / ?h1)) + y1 * ((?h0 + ?h1) * (?h0 + ?h1) / (?h0 * ?h1))
      + y2 * (2 - ?h0 / ?h1))"
    using h w0 w1 w2 assms(5-7) by (intro mult_nonneg_nonneg add_nonneg_nonneg) simp_all
  have hp: "?h0 * ?h1 \<noteq> 0"
    using h by simp
  have "simps_panel x0 x1 x2 y0 y1 y2
      = Returns ((?h0 + ?h1) / 6 * (y0 * (2 - 1 / (?h0 / ?h1)) + y1 * ((?h0 + ?h1) * (?h0 + ?h1) / (?h0 * ?h1))
          + y2 * (2 - ?h0 / ?h1)))"
    using hp by (simp only: simps_panel_def Let_def if_False)
  then show ?thesis
    using nonneg by blast
qed

lemma basic_simps_nonneg:
  assumes "sorted_wrt (<) xs" and "gentle xs" and "\<forall>y \<in> set ys. 0 \<le> y"
  shows "\<exists>r. basic_simps ys xs = Returns r \<and> 0 \<le> r"
  using assms
proof (induction ys xs rule: basic_simps.induct)
  case (1 y0 y1 y2 ys x0 x1 x2 xs)
  obtain p where p: "simps_panel x0 x1 x2 y0 y1 y2 = Returns p" "0 \<le> p"
    using simps_panel_nonneg [of x0 x1 x2 y0 y1 y2] "1.prems" by auto
  have "gentle (x2 # xs)"
    using gentle_tl [of "x1 # x2 # xs"] "1.prems"(2) by simp
  then obtain r where r: "basic_simps (y2 # ys) (x2 # xs) = Returns r" "0 \<le> r"
    using "1.IH" "1.prems" by auto
  show ?case
    using p r by simp
qed simp_all

lemma simps_Returns_length: "simps y x = Returns d \<Longrightarrow> length x = length y \<and> y \<noteq> []"
  by (auto simp: simps_def Let_def split: if_splits)

lemma simps_ends_nonneg:
  assumes "sorted_wrt (<) x" and "length y = length x" and "2 \<le> length y" and "\<forall>v \<in> set y. 0 \<le> v"
  shows "0 \<le> simps_ends y x"
proof -
  obtain y0 y1 rest where y: "y = y0 # y1 # rest"
    using assms(3) by (cases y; cases "tl y") auto
  obtain ys a b where y': "y = ys @ [a, b]"
    using assms(3) by (cases y rule: rev_cases; cases "butlast y" rule: rev_cases) auto
  obtain x0 x1 xrest where x: "x = x0 # x1 # xrest"
    using assms(2,3) by (cases x; cases "tl x") auto
  obtain xs c d where x': "x = xs @ [c, d]"
    using assms(2,3) by (cases x rule: rev_cases; cases "butlast x" rule: rev_cases) auto
  have heads: "y ! 0 = y0" "y ! 1 = y1" "x ! 0 = x0" "x ! 1 = x1"
    by (simp_all add: x y)
  have lasts: "last y = b" "last (butlast y) = a" "last x = d" "last (butlast x) = c"
    by (simp_all add: x' y' butlast_append)
  have "x0 < x1"
    using assms(1) by (simp add: x)
  moreover have "c < d"
    using assms(1) by (simp add: x' sorted_wrt_append)
  moreover have "0 \<le> y0" "0 \<le> y1"
    using assms(4) by (simp_all add: y)
  moreover have "0 \<le> a" "0 \<le> b"
    using assms(4) by (simp_all add: y')
  ultimately show ?thesis
    unfolding simps_ends_def heads lasts by simp
qed

lemma simps_nonneg:
  assumes "regular_grid x" and "simps y x = Returns d" and "\<forall>v \<in> set y. 0 \<le> v"
  shows "0 \<le> d"
proof -
  have sorted: "sorted_wrt (<) x" and gentle: "gentle x"
    using assms(1) by (simp_all add: regular_grid_def)
  have len: "length x = length y" and ne: "y \<noteq> []"
    using simps_Returns_length [OF assms(2)] by simp_all
  show ?thesis
  proof (cases "even (length y)")
    case False
    then show ?thesis
      using basic_simps_nonneg [OF sorted gentle assms(3)] assms(2) len by (auto simp: simps_odd)
  next
    case True
    then have two: "2 \<le> length y"
      using ne by (cases y; cases "tl y") auto
    obtain r1 where r1: "basic_simps (butlast y) (butlast x) = Returns r1" "0 \<le> r1"
      using basic_simps_nonneg [of "butlast x" "butlast y"] sorted gentle assms(3)
      by (auto simp: sorted_wrt_butlast gentle_butlast dest: in_set_butlastD)
    obtain r2 where r2: "basic_simps (tl y) (tl x) = Returns r2" "0 \<le> r2"
      using basic_simps_nonneg [of "tl x" "tl y"] sorted gentle assms(3) ne
      by (auto simp: sorted_wrt_tl gentle_tl dest: list.set_sel(2))
    have ends: "0 \<le> simps_ends y x"
      using sorted len two assms(3) by (intro simps_ends_nonneg) simp_all
    have "d = (r1 + r2) / 2 + simps_ends y x"
      using assms(2) True ne len r1 r2 by (simp add: simps_even)
    then show ?thesis
      using ends r1(2) r2(2) by simp
  qed
qed

lemma arccos_clip_range:
  shows "0 \<le> arccos (np_clip d (- 1) 1)" and "arccos (np_clip d (- 1) 1) \<le> pi"
    and "0 \<le> d \<Longrightarrow> arccos (np_clip d (- 1) 1) \<le> pi / 2"
proof -
  have clip: "- 1 \<le> np_clip d (- 1) 1" "np_clip d (- 1) 1 \<le> 1"
    by (simp_all add: np_clip_def)
  show "0 \<le> arccos (np_clip d (- 1) 1)"
    using clip by (rule arccos_lbound)
  show "arccos (np_clip d (- 1) 1) \<le> pi"
    using clip by (rule arccos_ubound)
  assume "0 \<le> d"
  then have "0 \<le> np_clip d (- 1) 1"
    by (simp add: np_clip_def)
  then show "arccos (np_clip d (- 1) 1) \<le> pi / 2"
    using clip(2) by (rule arccos_le_pi2)
qed

lemma basic_simps_Returns:
  assumes "sorted_wrt (<) xs"
  shows "\<exists>r. basic_simps ys xs = Returns r"
  using assms
proof (induction ys xs rule: basic_simps.induct)
  case (1 y0 y1 y2 ys x0 x1 x2 xs)
  have "x0 < x1" and "x1 < x2"
    using "1.prems" by simp_all
  then have "(x1 - x0) * (x2 - x1) \<noteq> 0"
    by simp
  then have "\<exists>p. simps_panel x0 x1 x2 y0 y1 y2 = Returns p"
    by (simp only: simps_panel_def Let_def if_False) blast
  then obtain p where p: "simps_panel x0 x1 x2 y0 y1 y2 = Returns p" ..
  obtain r where r: "basic_simps (y2 # ys) (x2 # xs) = Returns r"
    using "1.IH" "1.prems" by auto
  show ?case
    using p r by simp
qed simp_all

lemma simps_Returns:
  assumes "sorted_wrt (<) x" and "length y = length x" and "x \<noteq> []"
  shows "\<exists>d. simps y x = Returns d"
proof (cases "even (length y)")
  case False
  then show ?thesis
    using basic_simps_Returns [OF assms(1), of y] assms(2) by (simp add: simps_odd)
next
  case True
  have ne: "y \<noteq> []"
    using assms(2,3) by auto
  obtain r1 where r1: "basic_simps (butlast y) (butlast x) = Returns r1"
    using basic_simps_Returns [of "butlast x" "butlast y"] assms(1) by (auto simp: sorted_wrt_butlast)
  obtain r2 where r2: "basic_simps (tl y) (tl x) = Returns r2"
    using basic_simps_Returns [of "tl x" "tl y"] assms(1) by (auto simp: sorted_wrt_tl)
  show ?thesis
    using True ne assms(2) r1 r2 by (simp add: simps_even)
qed

lemma np_sqrt_array_Returns:
  assumes "\<forall>v \<in> set vs. 0 \<le> v"
  shows "np_sqrt_array vs = Returns (map sqrt vs)"
  unfolding np_sqrt_array_def
  by (rule sequence_cong_Returns) (use assms in \<open>auto simp: np_sqrt_def\<close>)

lemma arccos_clip_simps:
  assumes "simps p g = Returns d" and "\<forall>v \<in> set p. 0 \<le> v"
  shows "\<exists>r. bind (simps p g) (\<lambda>d. Returns (arccos (np_clip d (- 1) 1))) = Returns r
           \<and> 0 \<le> r \<and> r \<le> pi \<and> (regular_grid g \<longrightarrow> r \<le> pi / 2)"
proof (intro exI conjI impI)
  show "bind (simps p g) (\<lambda>d. Returns (arccos (np_clip d (- 1) 1))) = Returns (arccos (np_clip d (- 1) 1))"
    by (simp add: assms(1))
  show "0 \<le> arccos (np_clip d (- 1) 1)"
    by (rule arccos_clip_range(1))
  show "arccos (np_clip d (- 1) 1) \<le> pi"
    by (rule arccos_clip_range(2))
  assume "regular_grid g"
  then have "0 \<le> d"
    using assms simps_nonneg by blast
  then show "arccos (np_clip d (- 1) 1) \<le> pi / 2"
    by (rule arccos_clip_range(3))
qed

text \<open>
  Claim C5, amended. On a strictly increasing grid \<^verbatim>\<open>warping_distance\<close> returns a number in
  \<open>[0, pi]\<close>, the arc cosine of a number clamped into \<open>[-1, 1]\<close>, and so does \<^verbatim>\<open>phase_distance\<close>
  when the derivative of the warping has no negative value at the points of the grid; a
  negative value there is left out of this statement. Both numbers lie in \<open>[0, pi/2]\<close> when
  the grid is regular.
\<close>

theorem elastic_distances_range:
  assumes "cast_to_grid E warping1 warping2 = Returns (w1, w2)"
    and "normalize_warping E w1 (0, 1) = Returns n1"
    and "normalize_warping E w2 (0, 1) = Returns n2"
    and "derivative E n1 = Returns d1" and "data_matrix d1 = r1 # rest1"
    and "derivative E n2 = Returns d2" and "data_matrix d2 = r2 # rest2"
    and "grid_points n1 = g # gs"
    and "length r1 = length g" and "length r2 = length g"
    and "sorted_wrt (<) g" and "g \<noteq> []"
    and "cast_to_grid E' fdata1 fdata2 = Returns (f1, f2)"
    and "grid_points f1 = t0 # ts"
    and "normalize_scale E' t0 = Returns t"
    and "registration E' (copy f2 t (0, 1)) lam t (copy f1 t (0, 1)) = Returns (f1_reg, warping)"
    and "derivative E' warping = Returns warping_deriv"
    and "evaluate E' warping_deriv t = Returns (dw # rest)"
    and "\<forall>v \<in> set dw. 0 \<le> v" and "length dw = length t"
    and "sorted_wrt (<) t" and "t \<noteq> []"
  shows "(\<exists>r. warping_distance E warping1 warping2 = Returns r
            \<and> 0 \<le> r \<and> r \<le> pi \<and> (regular_grid g \<longrightarrow> r \<le> pi / 2))
       \<and> (\<exists>r. phase_distance E' lam fdata1 fdata2 = Returns r
            \<and> 0 \<le> r \<and> r \<le> pi \<and> (regular_grid t \<longrightarrow> r \<le> pi / 2))"
proof
  let ?p = "map2 (\<lambda>u v. sqrt (max 0 u) * sqrt (max 0 v)) r1 r2"
  have prod: "map2 (*) (map (\<lambda>v. sqrt (max 0 v)) r1) (map (\<lambda>v. sqrt (max 0 v)) r2) = ?p"
    by (simp add: zip_map_map case_prod_unfold)
  have wd: "warping_distance E warping1 warping2
      = bind (simps ?p g) (\<lambda>d. Returns (arccos (np_clip d (- 1) 1)))"
    using assms(1-10)
    by (simp add: warping_distance_def item0_def np_sqrt_array_floored np_multiply_out_def Let_def prod)
  have nonneg: "\<forall>v \<in> set ?p. 0 \<le> v"
    by auto
  obtain d where "simps ?p g = Returns d"
    using simps_Returns [of g ?p] assms(9-12) by auto
  then show "\<exists>r. warping_distance E warping1 warping2 = Returns r
      \<and> 0 \<le> r \<and> r \<le> pi \<and> (regular_grid g \<longrightarrow> r \<le> pi / 2)"
    unfolding wd using nonneg by (rule arccos_clip_simps)
next
  have pd: "phase_distance E' lam fdata1 fdata2
      = bind (simps (map sqrt dw) t) (\<lambda>d. Returns (arccos (np_clip d (- 1) 1)))"
    using assms(13-19)
    by (simp add: phase_distance_def item0_def np_sqrt_array_Returns Let_def)
  have nonneg: "\<forall>v \<in> set (map sqrt dw). 0 \<le> v"
    using assms(19) by simp
  obtain d where "simps (map sqrt dw) t = Returns d"
    using simps_Returns [of t "map sqrt dw"] assms(20-22) by auto
  then show "\<exists>r. phase_distance E' lam fdata1 fdata2 = Returns r
      \<and> 0 \<le> r \<and> r \<le> pi \<and> (regular_grid t \<longrightarrow> r \<le> pi / 2)"
    unfolding pd using nonneg by (rule arccos_clip_simps)
qed

lemma sqrt_9_quarters: "sqrt (9/4) = 3/2"
  by (rule real_sqrt_unique) (simp_all add: power2_eq_square)

lemma sqrt_25th: "sqrt (1/25) = 1/5"
  by (rule real_sqrt_unique) (simp_all add: power2_eq_square)

lemma sqrt_49_25ths: "sqrt (49/25) = 7/5"
  by (rule real_sqrt_unique) (simp_all add: power2_eq_square)

text \<open>
  The theorem on the uniform grid 0, 1/2, 1. The distance of the warpings \<open>fd_line\<close> and
  \<open>fd_bent\<close>, whose derivatives are \<open>1, 1, 1\<close> and \<open>-1/4, 1, 9/4\<close>, is \<open>arccos (11/12)\<close>; the
  phase distance of two functions that the registration aligns by the warping \<open>fd_curved\<close>,
  whose derivative is \<open>1/25, 1, 49/25\<close>, is \<open>arccos (14/15)\<close>.
\<close>

theorem elastic_distances_range_witness:
  "warping_distance (example_collaborators three_point_differences) fd_line fd_bent
     = Returns (arccos (11/12))
   \<and> phase_distance (with_warping fd_curved (example_collaborators three_point_differences)) 0 fd_line fd_square
     = Returns (arccos (14/15))
   \<and> 0 \<le> arccos (11/12) \<and> arccos (11/12) \<le> pi / 2
   \<and> 0 \<le> arccos (14/15) \<and> arccos (14/15) \<le> pi / 2"
proof -
  let ?E = "example_collaborators three_point_differences"
  let ?E' = "with_warping fd_curved (example_collaborators three_point_differences)"
  have w: "warping_distance ?E fd_line fd_bent = Returns (arccos (11/12))"
    by (simp add: warping_distance_def fd_line_def fd_bent_def differences_code_defs
        elastic_code_defs sqrt_9_quarters)
  have p: "phase_distance ?E' 0 fd_line fd_square = Returns (arccos (14/15))"
    by (simp add: phase_distance_def with_warping_def fd_line_def fd_square_def fd_curved_def
        differences_code_defs elastic_code_defs sqrt_25th sqrt_49_25ths)
  have reg: "regular_grid [0, 1/2, 1]"
    by (simp add: regular_grid_def)
  have range: "(\<exists>r. warping_distance ?E fd_line fd_bent = Returns r
            \<and> 0 \<le> r \<and> r \<le> pi \<and> (regular_grid [0, 1/2, 1] \<longrightarrow> r \<le> pi / 2))
       \<and> (\<exists>r. phase_distance ?E' 0 fd_line fd_square = Returns r
            \<and> 0 \<le> r \<and> r \<le> pi \<and> (regular_grid [0, 1/2, 1] \<longrightarrow> r \<le> pi / 2))"
    by (rule elastic_distances_range
        [where E = ?E and ?warping1.0 = fd_line and ?warping2.0 = fd_bent
           and ?w1.0 = fd_line and ?w2.0 = fd_bent and ?n1.0 = fd_line and ?n2.0 = fd_bent
           and ?d1.0 = "fd_line\<lparr>data_matrix := [[1, 1, 1]]\<rparr>" and ?r1.0 = "[1, 1, 1]" and ?rest1.0 = "[]"
           and ?d2.0 = "fd_bent\<lparr>data_matrix := [[- 1/4, 1, 9/4]]\<rparr>" and ?r2.0 = "[- 1/4, 1, 9/4]"
           and ?rest2.0 = "[]" and g = "[0, 1/2, 1]" and gs = "[]"
           and E' = ?E' and ?fdata1.0 = fd_line and ?fdata2.0 = fd_square
           and ?f1.0 = fd_line and ?f2.0 = fd_square and ?t0.0 = "[0, 1/2, 1]" and ts = "[]"
           and t = "[0, 1/2, 1]" and lam = 0 and ?f1_reg.0 = "copy fd_line [0, 1/2, 1] (0, 1)"
           and warping = fd_curved
           and warping_deriv = "fd_curved\<lparr>data_matrix := [[1/25, 1, 49/25]]\<rparr>"
           and dw = "[1/25, 1, 49/25]" and rest = "[]"])
      (simp_all add: example_collaborators_def example_derivative_def with_warping_def
        differences_code_defs normalize_scale_spec_def copy_def item0_def
        fd_line_def fd_square_def fd_bent_def fd_curved_def)
  show ?thesis
    using range w p reg by auto
qed

subsection \<open>Fisher-Rao distance\<close>

lemma basic_simps_zero:
  assumes "sorted_wrt (<) xs" and "\<forall>y \<in> set ys. y = 0"
  shows "basic_simps ys xs = Returns 0"
  using assms
proof (induction ys xs rule: basic_simps.induct)
  case (1 y0 y1 y2 ys x0 x1 x2 xs)
  have "simps_panel x0 x1 x2 0 0 0 = Returns 0"
    using "1.prems"(1) by (simp add: simps_panel_def Let_def)
  moreover have "basic_simps (y2 # ys) (x2 # xs) = Returns 0"
    using "1.prems" by (intro "1.IH") auto
  ultimately show ?case
    using "1.prems"(2) by simp
qed simp_all

lemma simps_zero:
  assumes "sorted_wrt (<) x" and "x \<noteq> []" and "length y = length x" and "\<forall>v \<in> set y. v = 0"
  shows "simps y x = Returns 0"
proof (cases "even (length y)")
  case False
  then show ?thesis
    using assms by (simp add: simps_odd basic_simps_zero)
next
  case True
  have ne: "y \<noteq> []"
    using assms(2,3) by auto
  have bl: "basic_simps (butlast y) (butlast x) = Returns 0"
    using assms by (intro basic_simps_zero sorted_wrt_butlast) (auto dest: in_set_butlastD)
  have tl: "basic_simps (tl y) (tl x) = Returns 0"
    using assms ne by (intro basic_simps_zero sorted_wrt_tl) (auto dest: list.set_sel(2))
  have len: "2 \<le> length y"
    using True ne by (cases y; cases "tl y") auto
  then obtain y0 y1 rest where y: "y = y0 # y1 # rest"
    by (cases y; cases "tl y") auto
  obtain ys a b where y': "y = ys @ [a, b]"
    using len by (cases y rule: rev_cases; cases "butlast y" rule: rev_cases) auto
  have "y ! 0 = 0" "y ! 1 = 0"
    using assms(4) by (simp_all add: y)
  moreover have "last y = 0" "last (butlast y) = 0"
    using assms(4) by (simp_all add: y' butlast_append)
  ultimately have ends: "simps_ends y x = 0"
    by (simp add: simps_ends_def)
  show ?thesis
    using True ne assms(3) by (simp add: simps_even bl tl ends)
qed

lemma row_l2_commute: "row_l2 g ra rb = row_l2 g rb ra"
proof -
  have "map2 (\<lambda>u v. (u - v)\<^sup>2) ra rb = map2 (\<lambda>u v. (u - v)\<^sup>2) rb ra"
    by (subst zip_commute) (simp add: case_prod_unfold power2_commute)
  then show ?thesis
    by (auto simp: row_l2_def)
qed

lemma l2_distance_spec_commute:
  assumes "grid_points a = grid_points b"
  shows "l2_distance_spec a b = l2_distance_spec b a"
proof -
  have "map2 (row_l2 g) (data_matrix a) (data_matrix b) = map2 (row_l2 g) (data_matrix b) (data_matrix a)" for g
    by (subst zip_commute) (simp add: case_prod_unfold row_l2_commute)
  then have "(if length (data_matrix a) \<noteq> length (data_matrix b) then Raises ValueError
        else sequence (map2 (row_l2 g) (data_matrix a) (data_matrix b)))
      = (if length (data_matrix b) \<noteq> length (data_matrix a) then Raises ValueError
        else sequence (map2 (row_l2 g) (data_matrix b) (data_matrix a)))" for g
    by auto
  then show ?thesis
    using assms by (simp add: l2_distance_spec_def)
qed

lemma row_l2_self:
  assumes "sorted_wrt (<) g" and "g \<noteq> []" and "length r = length g"
  shows "row_l2 g r r = Returns 0"
proof -
  have "simps (map2 (\<lambda>u v. (u - v)\<^sup>2) r r) g = Returns 0"
    using assms by (intro simps_zero) (auto simp: zip_same)
  then show ?thesis
    by (simp add: row_l2_def np_sqrt_def)
qed

lemma l2_distance_spec_self:
  assumes "grid_points a = g # gs" and "sorted_wrt (<) g" and "g \<noteq> []"
    and "\<forall>r \<in> set (data_matrix a). length r = length g"
  shows "l2_distance_spec a a = Returns (replicate (length (data_matrix a)) 0)"
proof -
  have "sequence (map (\<lambda>(ra, rb). row_l2 g ra rb) (zip (data_matrix a) (data_matrix a)))
      = Returns (map (\<lambda>p. 0) (zip (data_matrix a) (data_matrix a)))"
    by (rule sequence_cong_Returns) (use assms in \<open>auto simp: zip_same row_l2_self\<close>)
  then show ?thesis
    using assms(1) by (simp add: l2_distance_spec_def item0_def map_replicate_const)
qed

lemma SRSF_spec_Returns:
  "deriv f = Returns df \<Longrightarrow>
   SRSF_spec deriv f = Returns (df\<lparr>data_matrix := map (map (\<lambda>v. sgn v * sqrt \<bar>v\<bar>)) (data_matrix df)\<rparr>)"
  by (simp add: SRSF_spec_def)

text \<open>
  Claim C7, with the \<^verbatim>\<open>SRSF\<close> transform and the L2 distance of the specification. For two
  samples of scalar functions on a common grid, which \<^verbatim>\<open>_cast_to_grid\<close> hands back as they
  are and whose derivatives are sampled on the normalized grid, the Fisher-Rao distance
  from \<open>f\<close> to \<open>g\<close> is the one from \<open>g\<close> to \<open>f\<close>; and on a strictly increasing grid the
  distance from \<open>f\<close> to \<open>f\<close> is 0 for every function of the sample.
\<close>

theorem fisher_rao_distance_symmetric:
  assumes cast_fg: "cast_to_grid E f g = Returns (f, g)"
    and cast_gf: "cast_to_grid E g f = Returns (g, f)"
    and cast_ff: "cast_to_grid E f f = Returns (f, f)"
    and grid_f: "grid_points f = t0 # ts" and grid_g: "grid_points g = t0 # ts'"
    and norm: "normalize_scale E t0 = Returns t"
    and df: "derivative E (copy f t (0, 1)) = Returns df" and grid_df: "grid_points df = [t]"
    and dg: "derivative E (copy g t (0, 1)) = Returns dg" and grid_dg: "grid_points dg = [t]"
    and rows: "\<forall>r \<in> set (data_matrix df). length r = length t"
    and inc: "sorted_wrt (<) t" and ne: "t \<noteq> []"
  shows "fisher_rao_distance (spec_collaborators E) f g = fisher_rao_distance (spec_collaborators E) g f
       \<and> fisher_rao_distance (spec_collaborators E) f f = Returns (replicate (length (data_matrix df)) 0)"
proof -
  let ?q = "\<lambda>d. d\<lparr>data_matrix := map (map (\<lambda>v. sgn v * sqrt \<bar>v\<bar>)) (data_matrix d)\<rparr>"
  have qf: "SRSF_spec (derivative E) (copy f t (0, 1)) = Returns (?q df)"
    and qg: "SRSF_spec (derivative E) (copy g t (0, 1)) = Returns (?q dg)"
    using df dg by (simp_all add: SRSF_spec_Returns)
  have fg: "fisher_rao_distance (spec_collaborators E) f g = l2_distance_spec (?q df) (?q dg)"
    by (simp add: fisher_rao_distance_def spec_collaborators_def cast_fg grid_f item0_def norm qf qg)
  have gf: "fisher_rao_distance (spec_collaborators E) g f = l2_distance_spec (?q dg) (?q df)"
    by (simp add: fisher_rao_distance_def spec_collaborators_def cast_gf grid_g item0_def norm qf qg)
  have ff: "fisher_rao_distance (spec_collaborators E) f f = l2_distance_spec (?q df) (?q df)"
    by (simp add: fisher_rao_distance_def spec_collaborators_def cast_ff grid_f item0_def norm qf)
  have sym: "l2_distance_spec (?q df) (?q dg) = l2_distance_spec (?q dg) (?q df)"
    by (rule l2_distance_spec_commute) (simp add: grid_df grid_dg)
  have zero: "l2_distance_spec (?q df) (?q df) = Returns (replicate (length (data_matrix (?q df))) 0)"
    by (rule l2_distance_spec_self [where g = t and gs = "[]"]) (use rows inc ne in \<open>simp_all add: grid_df\<close>)
  show ?thesis
    using sym zero by (simp add: fg gf ff)
qed

text \<open>
  The theorem at the identity and the square on the grid 0, 1/2, 1, with three-point
  differences as derivatives.
\<close>

theorem fisher_rao_distance_symmetric_witness:
  "fisher_rao_distance (spec_collaborators (example_collaborators three_point_differences)) fd_line fd_square
     = fisher_rao_distance (spec_collaborators (example_collaborators three_point_differences)) fd_square fd_line
   \<and> fisher_rao_distance (spec_collaborators (example_collaborators three_point_differences)) fd_line fd_line
     = Returns [0]"
  using fisher_rao_distance_symmetric
    [where E = "example_collaborators three_point_differences" and f = fd_line and g = fd_square
       and ?t0.0 = "[0, 1/2, 1]" and ts = "[]" and ts' = "[]" and t = "[0, 1/2, 1]"
       and df = "fd_line\<lparr>data_matrix := [[1, 1, 1]]\<rparr>"
       and dg = "fd_square\<lparr>data_matrix := [[0, 1, 2]]\<rparr>"]
  by (simp add: example_collaborators_def example_derivative_def differences_code_defs
      normalize_scale_spec_def copy_def item0_def fd_line_def fd_square_def)


end
